theory Spec2Isabelle
  imports Complex_Main "HOL-Library.Sublist"
begin

section \<open>JavaScript values and strings\<close>

text \<open>
  A value thrown by JavaScript code: an \<open>Error\<close> object with its message, or the value
  \<open>undefined\<close> (what \<open>throw lastError\<close> raises when \<open>lastError\<close> was never assigned).
  A function that may throw returns \<open>thrown + 'a\<close>, with \<open>Inl\<close> for the throw.
\<close>

datatype thrown = JsUndefined | JsError string

text \<open>
  Reading \<open>error.message\<close> of a caught value, as the \<open>catch\<close> blocks do when they
  log: on an \<open>Error\<close> object it is the message, on \<open>undefined\<close> the read itself
  throws a \<open>TypeError\<close>.
\<close>

definition js_message :: "thrown \<Rightarrow> thrown + string" where
  "js_message error =
     (case error of
        JsUndefined \<Rightarrow> Inl (JsError ''TypeError: Cannot read properties of undefined'')
      | JsError m \<Rightarrow> Inr m)"

text \<open>
  A string is modelled by the bytes of its UTF-8 encoding, so an ASCII character is one
  \<open>char\<close> and any other character is a sequence of two to four \<open>char\<close>s, each
  \<open>0x80\<close> or above.

  \<open>String.prototype.toLowerCase\<close>. Three kinds of character have a lower-case form
  that contains an ASCII character, and they are mapped as the runtime maps them: the
  letters \<open>A\<close> to \<open>Z\<close>, U+212A KELVIN SIGN (bytes \<open>E2 84 AA\<close>, to \<open>k\<close>) and
  U+0130 LATIN CAPITAL LETTER I WITH DOT ABOVE (bytes \<open>C4 B0\<close>, to \<open>i\<close> followed by
  U+0307, bytes \<open>CC 87\<close>). Every other character is left as it is: it is not ASCII and
  neither is its lower-case form, so whether an ASCII string occurs in the result, and
  whether the result is an ASCII string, are as in the program.
\<close>

definition toLowerCase_char :: "char \<Rightarrow> char" where
  "toLowerCase_char c =
     (case map_of (zip ''ABCDEFGHIJKLMNOPQRSTUVWXYZ'' ''abcdefghijklmnopqrstuvwxyz'') c of
        Some l \<Rightarrow> l
      | None \<Rightarrow> c)"

fun toLowerCase :: "string \<Rightarrow> string" where
  "toLowerCase (a # b # c # cs) =
     (if a = CHR 0xE2 \<and> b = CHR 0x84 \<and> c = CHR 0xAA then CHR ''k'' # toLowerCase cs
      else if a = CHR 0xC4 \<and> b = CHR 0xB0
           then CHR ''i'' # CHR 0xCC # CHR 0x87 # toLowerCase (c # cs)
      else toLowerCase_char a # toLowerCase (b # c # cs))"
| "toLowerCase [a, b] =
     (if a = CHR 0xC4 \<and> b = CHR 0xB0 then [CHR ''i'', CHR 0xCC, CHR 0x87]
      else toLowerCase_char a # toLowerCase [b])"
| "toLowerCase [a] = [toLowerCase_char a]"
| "toLowerCase [] = []"

text \<open>\<open>text.includes(keyword)\<close>: the keyword occurs as a contiguous substring.\<close>

fun js_includes :: "'a list \<Rightarrow> 'a list \<Rightarrow> bool" where
  "js_includes [] k = (k = [])"
| "js_includes (c # cs) k = (prefix k (c # cs) \<or> js_includes cs k)"

text \<open>\<open>s.split(',')\<close>: always at least one piece; \<open>''''.split(',')\<close> is \<open>['''']\<close>.\<close>

fun js_split :: "char \<Rightarrow> string \<Rightarrow> string list" where
  "js_split d [] = [[]]"
| "js_split d (c # cs) =
     (if c = d then [] # js_split d cs
      else (case js_split d cs of
              [] \<Rightarrow> [[c]]
            | p # ps \<Rightarrow> (c # p) # ps))"

text \<open>
  \<open>s.trim()\<close> removes white space and line terminators from both ends: TAB, LF, VT,
  FF, CR, space, U+00A0, U+1680, U+2000 to U+200A, U+2028, U+2029, U+202F, U+205F,
  U+3000 and U+FEFF, here in UTF-8. \<open>strip ws s\<close> removes from the front of \<open>s\<close> the
  sequences listed in \<open>ws\<close> (of at most three bytes each) until none is in front.
\<close>

definition white_space :: "string list" where
  "white_space =
     [[CHR 0x09], [CHR 0x0A], [CHR 0x0B], [CHR 0x0C], [CHR 0x0D], [CHR 0x20],
      [CHR 0xC2, CHR 0xA0],
      [CHR 0xE1, CHR 0x9A, CHR 0x80],
      [CHR 0xE2, CHR 0x80, CHR 0x80], [CHR 0xE2, CHR 0x80, CHR 0x81],
      [CHR 0xE2, CHR 0x80, CHR 0x82], [CHR 0xE2, CHR 0x80, CHR 0x83],
      [CHR 0xE2, CHR 0x80, CHR 0x84], [CHR 0xE2, CHR 0x80, CHR 0x85],
      [CHR 0xE2, CHR 0x80, CHR 0x86], [CHR 0xE2, CHR 0x80, CHR 0x87],
      [CHR 0xE2, CHR 0x80, CHR 0x88], [CHR 0xE2, CHR 0x80, CHR 0x89],
      [CHR 0xE2, CHR 0x80, CHR 0x8A],
      [CHR 0xE2, CHR 0x80, CHR 0xA8], [CHR 0xE2, CHR 0x80, CHR 0xA9],
      [CHR 0xE2, CHR 0x80, CHR 0xAF],
      [CHR 0xE2, CHR 0x81, CHR 0x9F],
      [CHR 0xE3, CHR 0x80, CHR 0x80],
      [CHR 0xEF, CHR 0xBB, CHR 0xBF]]"

fun strip :: "string list \<Rightarrow> string \<Rightarrow> string" where
  "strip ws (a # b # c # cs) =
     (if [a] \<in> set ws then strip ws (b # c # cs)
      else if [a, b] \<in> set ws then strip ws (c # cs)
      else if [a, b, c] \<in> set ws then strip ws cs
      else a # b # c # cs)"
| "strip ws [a, b] =
     (if [a] \<in> set ws then strip ws [b]
      else if [a, b] \<in> set ws then []
      else [a, b])"
| "strip ws [a] = (if [a] \<in> set ws then [] else [a])"
| "strip ws [] = []"

definition js_trim :: "string \<Rightarrow> string" where
  "js_trim s = rev (strip (map rev white_space) (rev (strip white_space s)))"

text \<open>
  Truthiness of a string-or-undefined value such as an environment variable:
  \<open>undefined\<close> and the empty string are falsy.
\<close>

definition truthy :: "string option \<Rightarrow> bool" where
  "truthy v = (case v of None \<Rightarrow> False | Some s \<Rightarrow> s \<noteq> [])"

text \<open>
  One call of \<open>logger.externalService(service, operation, success, ...)\<close>. The functions
  below return the lines they log, in order; response times and metadata are dropped.
\<close>

record log_entry =
  service :: string
  operation :: string
  success :: bool

section \<open>utils/helpers.js\<close>

subsection \<open>retryWithBackoff\<close>

text \<open>
  \<^verbatim>\<open>
  const retryWithBackoff = async (fn, maxRetries = 3, baseDelay = 1000) => {
    let lastError;
    for (let i = 0; i < maxRetries; i++) {
      try { return await fn(); }
      catch (error) {
        lastError = error;
        if (i === maxRetries - 1) { throw error; }
        const delayTime = baseDelay * Math.pow(2, i);
        logger.warn(`Retry attempt ... failed`, { error: error.message });
        await delay(delayTime);
      }
    }
    throw lastError;
  };
  \<close>
  The operation \<open>fn\<close> has effects and may answer differently each time it is invoked: it
  is given as the outcome of its invocations, \<open>fn k\<close> being the outcome of invocation number
  \<open>k\<close> (from 0). Iteration \<open>i\<close> of the loop makes invocation number \<open>i\<close>. The function
  returns the result together with the effects in order: each invocation of \<open>fn\<close> and each
  \<open>delay(ms)\<close>. \<open>maxRetries\<close> and \<open>baseDelay\<close> are integers. The log line before
  the delay reads \<open>error.message\<close>.
\<close>

datatype retry_event = Invoke nat | Wait int

function retry_loop ::
  "(nat \<Rightarrow> thrown + 'a) \<Rightarrow> int \<Rightarrow> int \<Rightarrow> nat \<Rightarrow> thrown \<Rightarrow> (thrown + 'a) \<times> retry_event list"
where
  "retry_loop fn maxRetries baseDelay i lastError =
     (if int i < maxRetries then
        (case fn i of
           Inr v \<Rightarrow> (Inr v, [Invoke i])
         | Inl error \<Rightarrow>
             (if int i = maxRetries - 1 then (Inl error, [Invoke i])
              else (case js_message error of
                      Inl type_error \<Rightarrow> (Inl type_error, [Invoke i])
                    | Inr message \<Rightarrow>
                        (let delayTime = baseDelay * 2 ^ i;
                             (r, events) = retry_loop fn maxRetries baseDelay (Suc i) error
                         in (r, Invoke i # Wait delayTime # events)))))
      else (Inl lastError, []))"
  by pat_completeness auto
termination
  by (relation "measure (\<lambda>(fn, maxRetries, baseDelay, i, lastError). nat (maxRetries - int i))") auto

declare retry_loop.simps [simp del]

text \<open>The invocation numbers and the delays among the effects, in order.\<close>

fun invocations :: "retry_event list \<Rightarrow> nat list" where
  "invocations [] = []"
| "invocations (Invoke k # es) = k # invocations es"
| "invocations (Wait ms # es) = invocations es"

fun delays :: "retry_event list \<Rightarrow> int list" where
  "delays [] = []"
| "delays (Invoke k # es) = delays es"
| "delays (Wait ms # es) = ms # delays es"

definition retryWithBackoff ::
  "(nat \<Rightarrow> thrown + 'a) \<Rightarrow> int \<Rightarrow> int \<Rightarrow> (thrown + 'a) \<times> retry_event list"
where
  "retryWithBackoff fn maxRetries baseDelay = retry_loop fn maxRetries baseDelay 0 JsUndefined"

text \<open>The callers in the services pass no second and third argument: the defaults apply.\<close>

definition retryWithBackoff_default :: "(nat \<Rightarrow> thrown + 'a) \<Rightarrow> thrown + 'a" where
  "retryWithBackoff_default fn = fst (retryWithBackoff fn 3 1000)"

text \<open>
  An operation that rejects with \<open>undefined\<close> the first time it is invoked, as
  \<open>() => Promise.reject()\<close> does, and resolves with 1 from then on.
\<close>

definition rejects_once :: "nat \<Rightarrow> thrown + nat" where
  "rejects_once k = (if k = 0 then Inl JsUndefined else Inr 1)"

subsection \<open>createAuditEntry, addAuditEntry\<close>

text \<open>
  An audit entry; \<open>timestamp\<close> is the clock reading of \<open>new Date()\<close> in milliseconds
  (the source stores its ISO rendering). The type of \<open>details\<close> is left open.
\<close>

record 'd audit_entry =
  action :: string
  userId :: string
  timestamp :: int
  details :: 'd

definition createAuditEntry :: "int \<Rightarrow> string \<Rightarrow> string \<Rightarrow> 'd \<Rightarrow> 'd audit_entry" where
  "createAuditEntry now a u d = \<lparr>action = a, userId = u, timestamp = now, details = d\<rparr>"

text \<open>
  \<open>existingTrail\<close> is any value: \<open>Some t\<close> when it is an array, \<open>None\<close> when it is not
  (\<open>Array.isArray\<close> fails), and then the trail starts empty.
\<close>

definition addAuditEntry ::
  "int \<Rightarrow> 'd audit_entry list option \<Rightarrow> string \<Rightarrow> string \<Rightarrow> 'd \<Rightarrow> 'd audit_entry list"
where
  "addAuditEntry now existingTrail a u d =
     (let trail = (case existingTrail of Some t \<Rightarrow> t | None \<Rightarrow> []);
          newEntry = createAuditEntry now a u d
      in trail @ [newEntry])"

section \<open>config/database.js: the cache table\<close>

text \<open>
  The Supabase client is an external collaborator. Its \<open>cache\<close> table has the primary key
  \<open>key\<close>, so it is a map from keys to rows. \<open>expires_at\<close> is a time in milliseconds.
  Each request the client sends is answered in one of three ways: the store processes it
  (\<open>Reachable\<close>), the client returns an \<open>{error}\<close> object (\<open>ErrorReply\<close>), or the call
  throws (\<open>Throws\<close>); in the last two cases the store is not changed. \<open>net c k\<close> is the
  answer to request number \<open>k\<close> of the client, \<open>sent c\<close> counts the requests sent so far.
\<close>

datatype reach = Reachable | ErrorReply | Throws

record 'v cache_row =
  row_value :: 'v
  expires_at :: int

record 'v supabase_client =
  cache :: "string \<rightharpoonup> 'v cache_row"
  net :: "nat \<Rightarrow> reach"
  sent :: nat

text \<open>\<open>from('cache').select('value, expires_at').eq('key', key).single()\<close>: \<open>(data, error)\<close>.\<close>

definition cache_select_single ::
  "'v supabase_client \<Rightarrow> string \<Rightarrow>
     (thrown + ('v cache_row option \<times> string option)) \<times> 'v supabase_client"
where
  "cache_select_single c key =
     (let c' = c\<lparr>sent := Suc (sent c)\<rparr> in
      case net c (sent c) of
        Throws \<Rightarrow> (Inl (JsError ''fetch failed''), c')
      | ErrorReply \<Rightarrow> (Inr (None, Some ''unavailable''), c')
      | Reachable \<Rightarrow>
          (case cache c key of
             None \<Rightarrow> (Inr (None, Some ''PGRST116''), c')
           | Some row \<Rightarrow> (Inr (Some row, None), c')))"

text \<open>\<open>from('cache').delete().eq('key', key)\<close>: the \<open>error\<close> of the reply.\<close>

definition cache_delete_eq ::
  "'v supabase_client \<Rightarrow> string \<Rightarrow> (thrown + string option) \<times> 'v supabase_client"
where
  "cache_delete_eq c key =
     (let c' = c\<lparr>sent := Suc (sent c)\<rparr> in
      case net c (sent c) of
        Throws \<Rightarrow> (Inl (JsError ''fetch failed''), c')
      | ErrorReply \<Rightarrow> (Inr (Some ''unavailable''), c')
      | Reachable \<Rightarrow> (Inr None, c'\<lparr>cache := (cache c)(key := None)\<rparr>))"

text \<open>\<open>from('cache').upsert({key, value, expires_at})\<close>: the \<open>error\<close> of the reply.\<close>

definition cache_upsert ::
  "'v supabase_client \<Rightarrow> string \<Rightarrow> 'v cache_row \<Rightarrow>
     (thrown + string option) \<times> 'v supabase_client"
where
  "cache_upsert c key row =
     (let c' = c\<lparr>sent := Suc (sent c)\<rparr> in
      case net c (sent c) of
        Throws \<Rightarrow> (Inl (JsError ''fetch failed''), c')
      | ErrorReply \<Rightarrow> (Inr (Some ''unavailable''), c')
      | Reachable \<Rightarrow> (Inr None, c'\<lparr>cache := (cache c)(key \<mapsto> row)\<rparr>))"

text \<open>
  \<open>getSupabase()\<close> returns the module variable \<open>supabase\<close>: \<open>None\<close> is \<open>null\<close> (not
  configured), \<open>Some c\<close> a client. \<open>getCachedData\<close> and \<open>setCachedData\<close> take it, and the
  clock reading \<open>now\<close> of \<open>new Date()\<close>, and return their result with the client after the
  call. Both wrap their whole body in \<open>try\<close>/\<open>catch\<close>; the \<open>Inl\<close> branches of the store
  calls are those catches.
\<close>

definition getCachedData ::
  "'v supabase_client option \<Rightarrow> int \<Rightarrow> string \<Rightarrow>
     (thrown + 'v option) \<times> 'v supabase_client option"
where
  "getCachedData supabase now key =
     (case supabase of
        None \<Rightarrow> (Inr None, None)
      | Some c \<Rightarrow>
          (case cache_select_single c key of
             (Inl e, c1) \<Rightarrow> (Inr None, Some c1)
           | (Inr (data, error), c1) \<Rightarrow>
               (case data of
                  None \<Rightarrow> (Inr None, Some c1)
                | Some row \<Rightarrow>
                    (if error \<noteq> None then (Inr None, Some c1)
                     else if expires_at row < now then
                       (case cache_delete_eq c1 key of
                          (Inl e, c2) \<Rightarrow> (Inr None, Some c2)
                        | (Inr r, c2) \<Rightarrow> (Inr None, Some c2))
                     else (Inr (Some (row_value row)), Some c1)))))"

text \<open>
  \<open>expiresAt.setHours(expiresAt.getHours() + ttlHours)\<close>: \<open>setHours\<close> truncates its
  argument to an integer, so for \<open>ttlHours \<ge> 0\<close> the whole hours of \<open>ttlHours\<close> are
  added (daylight-saving shifts of local time are not modelled).
\<close>

definition expiresAt_after :: "int \<Rightarrow> real \<Rightarrow> int" where
  "expiresAt_after now ttlHours = now + \<lfloor>ttlHours\<rfloor> * 3600000"

definition setCachedData ::
  "'v supabase_client option \<Rightarrow> int \<Rightarrow> string \<Rightarrow> 'v \<Rightarrow> real \<Rightarrow>
     (thrown + unit) \<times> 'v supabase_client option"
where
  "setCachedData supabase now key v ttlHours =
     (case supabase of
        None \<Rightarrow> (Inr (), None)
      | Some c \<Rightarrow>
          (let expiresAt = expiresAt_after now ttlHours in
           case cache_upsert c key \<lparr>row_value = v, expires_at = expiresAt\<rparr> of
             (Inl e, c1) \<Rightarrow> (Inr (), Some c1)
           | (Inr error, c1) \<Rightarrow> (Inr (), Some c1)))"

section \<open>services/geocodingService.js\<close>

text \<open>
  The constructor reads two environment variables and fixes the service once:
  \<^verbatim>\<open>
  this.service = this.googleMapsApiKey ? 'google' :
                 this.mapboxToken ? 'mapbox' : 'nominatim';
  \<close>
\<close>

record geocoding_env =
  GOOGLE_MAPS_API_KEY :: "string option"
  MAPBOX_ACCESS_TOKEN :: "string option"

datatype geo_service = Google | Mapbox | Nominatim

definition GeocodingService_service :: "geocoding_env \<Rightarrow> geo_service" where
  "GeocodingService_service env =
     (if truthy (GOOGLE_MAPS_API_KEY env) then Google
      else if truthy (MAPBOX_ACCESS_TOKEN env) then Mapbox
      else Nominatim)"

definition service_name :: "geo_service \<Rightarrow> string" where
  "service_name s = (case s of Google \<Rightarrow> ''google'' | Mapbox \<Rightarrow> ''mapbox'' | Nominatim \<Rightarrow> ''nominatim'')"

text \<open>
  The normalised result. Coordinates are rational approximations of the source's floating
  point numbers; \<open>None\<close> is \<open>undefined\<close>. \<open>accuracy\<close> is a label for Google, Mapbox and the
  mock, and a number for Nominatim.
\<close>

record address_components =
  city :: "string option"
  state :: "string option"
  country :: "string option"
  zipCode :: "string option"

datatype accuracy = Label string | Score real

record geocode_result =
  lat :: "real option"
  lng :: "real option"
  formattedAddress :: string
  components :: address_components
  accuracy :: accuracy
  source :: string

text \<open>
  The providers' replies, as far as \<open>geocode\<close> reads them. The address components are
  taken as the \<open>_parse...Components\<close> functions return them (their parsing is not modelled).
\<close>

record google_hit =
  g_lat :: real
  g_lng :: real
  g_formatted_address :: string
  g_components :: address_components
  g_location_type :: string

record google_response =
  g_status :: string
  g_results :: "google_hit list"

record mapbox_feature =
  m_center_lng :: real
  m_center_lat :: real
  m_place_name :: string
  m_components :: address_components
  m_accuracy :: "string option"

record mapbox_response =
  m_features :: "mapbox_feature list option"

record nominatim_hit =
  n_lat :: real
  n_lon :: real
  n_display_name :: string
  n_components :: address_components
  n_importance :: "real option"

record nominatim_response =
  n_data :: "nominatim_hit list option"

text \<open>
  The outside world of one \<open>geocode\<close> call: for each provider, what its HTTP endpoint
  answers to the successive \<open>axios.get\<close> attempts (a reply, or a thrown network error).
\<close>

record geo_world =
  google_http :: "nat \<Rightarrow> thrown + google_response"
  mapbox_http :: "nat \<Rightarrow> thrown + mapbox_response"
  nominatim_http :: "nat \<Rightarrow> thrown + nominatim_response"

text \<open>
  Each \<open>_geocodeWith...\<close> calls its endpoint through \<open>retryWithBackoff\<close>, builds the
  result from the first hit or throws, and logs one line. Its \<open>catch\<close> logs the failure
  with \<open>error.message\<close> and rethrows what it caught; \<open>client_catch\<close> is that block,
  for the service and operation named in the log line.
\<close>

definition client_catch :: "string \<Rightarrow> string \<Rightarrow> thrown \<Rightarrow> (thrown + 'a) \<times> log_entry list" where
  "client_catch svc op error =
     (case js_message error of
        Inl type_error \<Rightarrow> (Inl type_error, [])
      | Inr message \<Rightarrow> (Inl error, [\<lparr>service = svc, operation = op, success = False\<rparr>]))"

definition geocodeWithGoogle :: "geo_world \<Rightarrow> (thrown + geocode_result) \<times> log_entry list" where
  "geocodeWithGoogle w =
     (case retryWithBackoff_default (google_http w) of
        Inl error \<Rightarrow> client_catch ''Google Maps'' ''geocode'' error
      | Inr response \<Rightarrow>
          (if g_status response = ''OK'' \<and> length (g_results response) > 0 then
             (let result = hd (g_results response) in
              (Inr \<lparr>lat = Some (g_lat result), lng = Some (g_lng result),
                    formattedAddress = g_formatted_address result,
                    components = g_components result,
                    accuracy = Label (g_location_type result),
                    source = ''google''\<rparr>,
               [\<lparr>service = ''Google Maps'', operation = ''geocode'', success = True\<rparr>]))
           else client_catch ''Google Maps'' ''geocode''
                  (JsError (''Google Maps API error: '' @ g_status response))))"

definition geocodeWithMapbox :: "geo_world \<Rightarrow> (thrown + geocode_result) \<times> log_entry list" where
  "geocodeWithMapbox w =
     (case retryWithBackoff_default (mapbox_http w) of
        Inl error \<Rightarrow> client_catch ''Mapbox'' ''geocode'' error
      | Inr response \<Rightarrow>
          (case m_features response of
             Some (feature # rest) \<Rightarrow>
               (Inr \<lparr>lat = Some (m_center_lat feature), lng = Some (m_center_lng feature),
                     formattedAddress = m_place_name feature,
                     components = m_components feature,
                     accuracy = Label (case m_accuracy feature of
                                         None \<Rightarrow> ''unknown''
                                       | Some a \<Rightarrow> if a = [] then ''unknown'' else a),
                     source = ''mapbox''\<rparr>,
                [\<lparr>service = ''Mapbox'', operation = ''geocode'', success = True\<rparr>])
           | _ \<Rightarrow> client_catch ''Mapbox'' ''geocode'' (JsError ''No results found'')))"

definition geocodeWithNominatim :: "geo_world \<Rightarrow> (thrown + geocode_result) \<times> log_entry list" where
  "geocodeWithNominatim w =
     (case retryWithBackoff_default (nominatim_http w) of
        Inl error \<Rightarrow> client_catch ''Nominatim'' ''geocode'' error
      | Inr response \<Rightarrow>
          (case n_data response of
             Some (result # rest) \<Rightarrow>
               (Inr \<lparr>lat = Some (n_lat result), lng = Some (n_lon result),
                     formattedAddress = n_display_name result,
                     components = n_components result,
                     accuracy = Score (case n_importance result of
                                         None \<Rightarrow> 0.5
                                       | Some x \<Rightarrow> if x = 0 then 0.5 else x),
                     source = ''nominatim''\<rparr>,
                [\<lparr>service = ''Nominatim'', operation = ''geocode'', success = True\<rparr>])
           | _ \<Rightarrow> client_catch ''Nominatim'' ''geocode'' (JsError ''No results found'')))"

text \<open>
  \<open>_geocodeMock\<close>. The table is an object literal, so besides its six own keys the lookup
  \<open>mockLocations[key]\<close> also finds the inherited properties \<open>constructor\<close> and
  \<open>__proto__\<close> (the only ones spelt in lower case): they are truthy and have no \<open>lat\<close>
  or \<open>lng\<close>. \<open>r1\<close> and \<open>r2\<close> are the two readings of \<open>Math.random()\<close>.
\<close>

definition mockLocations :: "(string \<times> real \<times> real) list" where
  "mockLocations =
     [(''manhattan, nyc'', 40.7831, -73.9712),
      (''brooklyn, nyc'', 40.6782, -73.9442),
      (''miami, fl'', 25.7617, -80.1918),
      (''houston, tx'', 29.7604, -95.3698),
      (''los angeles, ca'', 34.0522, -118.2437),
      (''chicago, il'', 41.8781, -87.6298)]"

definition mock_coords :: "real \<Rightarrow> real \<Rightarrow> string \<Rightarrow> real option \<times> real option" where
  "mock_coords r1 r2 key =
     (case map_of mockLocations key of
        Some (la, lo) \<Rightarrow> (Some la, Some lo)
      | None \<Rightarrow>
          (if key = ''constructor'' \<or> key = ''__proto__'' then (None, None)
           else (Some (40.7128 + (r1 - 0.5) * 0.1), Some (-74.0060 + (r2 - 0.5) * 0.1))))"

definition geocodeMock ::
  "real \<Rightarrow> real \<Rightarrow> string \<Rightarrow> (thrown + geocode_result) \<times> log_entry list"
where
  "geocodeMock r1 r2 locationName =
     (let key = toLowerCase locationName;
          coords = mock_coords r1 r2 key;
          parts = js_split CHR '','' locationName
      in (Inr \<lparr>lat = fst coords, lng = snd coords,
                formattedAddress = locationName,
                components =
                  \<lparr>city = (case parts of [] \<Rightarrow> None | p # ps \<Rightarrow> Some (js_trim p)),
                   state = (case parts of p # q # ps \<Rightarrow> Some (js_trim q) | _ \<Rightarrow> None),
                   country = Some ''United States'',
                   zipCode = None\<rparr>,
                accuracy = Label ''approximate'',
                source = ''mock''\<rparr>,
          [\<lparr>service = ''Mock Geocoding'', operation = ''geocode'', success = True\<rparr>]))"

text \<open>
  \<open>geocode(locationName)\<close>. \<open>b64\<close> stands for the runtime's
  \<open>Buffer.from(s.toLowerCase()).toString('base64')\<close>. The body from the cache look-up to the cache
  write is inside \<open>try\<close>; the \<open>catch\<close> logs under the configured service's name
  (reading \<open>error.message\<close>) and returns the mock result.
\<close>

definition geocode_cacheKey :: "(string \<Rightarrow> string) \<Rightarrow> string \<Rightarrow> string" where
  "geocode_cacheKey b64 locationName = ''geocode_'' @ take 50 (b64 locationName)"

text \<open>The \<open>switch (this.service)\<close> of \<open>geocode\<close>.\<close>

definition geocode_switch ::
  "geo_service \<Rightarrow> geo_world \<Rightarrow> (thrown + geocode_result) \<times> log_entry list"
where
  "geocode_switch this_service w =
     (case this_service of
        Google \<Rightarrow> geocodeWithGoogle w
      | Mapbox \<Rightarrow> geocodeWithMapbox w
      | Nominatim \<Rightarrow> geocodeWithNominatim w)"

definition geocode_catch ::
  "geo_service \<Rightarrow> real \<Rightarrow> real \<Rightarrow> string \<Rightarrow> thrown \<Rightarrow>
     (thrown + geocode_result) \<times> log_entry list"
where
  "geocode_catch this_service r1 r2 locationName error =
     (case js_message error of
        Inl type_error \<Rightarrow> (Inl type_error, [])
      | Inr message \<Rightarrow>
          (let (r, lg) = geocodeMock r1 r2 locationName
           in (r, \<lparr>service = service_name this_service, operation = ''geocode'',
                    success = False\<rparr> # lg)))"

definition geocode ::
  "geocoding_env \<Rightarrow> (string \<Rightarrow> string) \<Rightarrow> geo_world \<Rightarrow> real \<Rightarrow> real \<Rightarrow> int \<Rightarrow>
   geocode_result supabase_client option \<Rightarrow> string \<Rightarrow>
     (thrown + geocode_result) \<times> log_entry list \<times> geocode_result supabase_client option"
where
  "geocode env b64 w r1 r2 now supabase locationName =
     (let cacheKey = geocode_cacheKey b64 locationName;
          this_service = GeocodingService_service env
      in case getCachedData supabase now cacheKey of
           (Inl error, sb1) \<Rightarrow>
             (let (r, lg) = geocode_catch this_service r1 r2 locationName error
              in (r, lg, sb1))
         | (Inr (Some cachedResult), sb1) \<Rightarrow> (Inr cachedResult, [], sb1)
         | (Inr None, sb1) \<Rightarrow>
             (case geocode_switch this_service w of
                (Inr result, lg1) \<Rightarrow>
                  (case setCachedData sb1 now cacheKey result 24 of
                     (Inr u, sb2) \<Rightarrow> (Inr result, lg1, sb2)
                   | (Inl error, sb2) \<Rightarrow>
                       (let (r, lg) = geocode_catch this_service r1 r2 locationName error
                        in (r, lg1 @ lg, sb2)))
              | (Inl error, lg1) \<Rightarrow>
                  (let (r, lg) = geocode_catch this_service r1 r2 locationName error
                   in (r, lg1 @ lg, sb1))))"

section \<open>services/socialMediaService.js\<close>

text \<open>
  A report as the source clients normalise it. \<open>createdAt\<close> is a time in milliseconds.
  \<open>enrichment\<close> holds the fields \<open>_processReports\<close> adds; it is \<open>None\<close> on a report that
  was not processed (the fields are \<open>undefined\<close> there).
\<close>

record metrics =
  replyCount :: nat
  retweetCount :: nat
  likeCount :: nat

record enrichment =
  e_disasterId :: string
  locationExtracted :: "string option"
  allLocations :: "string list"
  priorityScore :: int
  sentiment :: string
  category :: string
  processedAt :: int

record report =
  report_id :: string
  platform :: string
  content :: string
  author :: string
  createdAt :: int
  report_metrics :: metrics
  url :: string
  enrichment :: "enrichment option"

record fetch_result =
  reports :: "report list"
  reports_source :: string
  totalFound :: nat
  disasterId :: "string option"
  fetchedAt :: "int option"

subsection \<open>The heuristics\<close>

definition urgentKeywords :: "string list" where
  "urgentKeywords = [''urgent'', ''sos'', ''emergency'', ''trapped'', ''medical'', ''help'', ''critical'']"

definition moderateKeywords :: "string list" where
  "moderateKeywords = [''need'', ''assistance'', ''shelter'', ''food'', ''water'', ''supplies'']"

definition lowKeywords :: "string list" where
  "lowKeywords = [''update'', ''info'', ''volunteer'', ''available'']"

text \<open>Each \<open>forEach\<close> loop of \<open>_calculatePriorityScore\<close> is a fold over its keyword list.\<close>

definition calculatePriorityScore :: "string \<Rightarrow> int" where
  "calculatePriorityScore c =
     (let text = toLowerCase c;
          score = 1;
          score = fold (\<lambda>keyword score. if js_includes text keyword then score + 3 else score)
                    urgentKeywords score;
          score = fold (\<lambda>keyword score. if js_includes text keyword then score + 2 else score)
                    moderateKeywords score;
          score = fold (\<lambda>keyword score. if js_includes text keyword then score + 1 else score)
                    lowKeywords score
      in min 10 score)"

definition negativeWords :: "string list" where
  "negativeWords = [''help'', ''trapped'', ''emergency'', ''urgent'', ''disaster'', ''damage'',
                    ''destroyed'', ''need'']"

definition positiveWords :: "string list" where
  "positiveWords = [''safe'', ''rescued'', ''available'', ''restored'', ''volunteer'', ''helping'']"

definition analyzeSentiment :: "string \<Rightarrow> string" where
  "analyzeSentiment c =
     (let text = toLowerCase c;
          negativeCount = fold (\<lambda>word n. if js_includes text word then n + 1 else n)
                            negativeWords (0::nat);
          positiveCount = fold (\<lambda>word n. if js_includes text word then n + 1 else n)
                            positiveWords (0::nat)
      in if negativeCount > positiveCount then ''negative''
         else if positiveCount > negativeCount then ''positive''
         else ''neutral'')"

text \<open>
  \<open>categories\<close> is an object literal with string keys; \<open>Object.entries\<close> lists them in the
  order they are written.
\<close>

definition categories :: "(string \<times> string list) list" where
  "categories =
     [(''medical'', [''medical'', ''injured'', ''hospital'', ''ambulance'', ''doctor'']),
      (''shelter'', [''shelter'', ''housing'', ''accommodation'', ''place to stay'']),
      (''food_water'', [''food'', ''water'', ''hungry'', ''thirsty'', ''supplies'']),
      (''rescue'', [''trapped'', ''rescue'', ''stuck'', ''help'', ''sos'']),
      (''information'', [''update'', ''info'', ''status'', ''news'', ''report'']),
      (''volunteer'', [''volunteer'', ''helping'', ''assist'', ''support'']),
      (''infrastructure'', [''power'', ''electricity'', ''road'', ''bridge'', ''water system''])]"

fun categorize_loop :: "string \<Rightarrow> (string \<times> string list) list \<Rightarrow> string" where
  "categorize_loop text [] = ''general''"
| "categorize_loop text ((cat, keywords) # entries) =
     (if list_ex (\<lambda>keyword. js_includes text keyword) keywords then cat
      else categorize_loop text entries)"

definition categorizeReport :: "string \<Rightarrow> string" where
  "categorizeReport c = categorize_loop (toLowerCase c) categories"

text \<open>
  \<open>_processReports\<close>. The regular expressions of \<open>_extractLocationsFromText\<close> are not
  modelled: the function is the parameter \<open>extractLocations\<close>.
\<close>

definition processReports ::
  "(string \<Rightarrow> string list) \<Rightarrow> int \<Rightarrow> report list \<Rightarrow> string \<Rightarrow> report list"
where
  "processReports extractLocations now rs did =
     map (\<lambda>r.
            let locationMatches = extractLocations (content r);
                priority = calculatePriorityScore (content r);
                senti = analyzeSentiment (content r);
                cat = categorizeReport (content r)
            in r\<lparr>enrichment :=
                   Some \<lparr>e_disasterId = did,
                         locationExtracted =
                           (case locationMatches of [] \<Rightarrow> None | l # ls \<Rightarrow> Some l),
                         allLocations = locationMatches,
                         priorityScore = priority,
                         sentiment = senti,
                         category = cat,
                         processedAt = now\<rparr>\<rparr>) rs"

subsection \<open>The mock source\<close>

definition mockReports :: "int \<Rightarrow> report list" where
  "mockReports now =
     [\<lparr>report_id = ''mock_1'', platform = ''mock_twitter'',
       content = ''#floodrelief Need food and water in Lower East Side. Families trapped on 3rd floor. #emergency #NYC'',
       author = ''citizen_reporter1'', createdAt = now - 30 * 60 * 1000,
       report_metrics = \<lparr>replyCount = 5, retweetCount = 12, likeCount = 8\<rparr>,
       url = ''https://twitter.com/mock/status/1'', enrichment = None\<rparr>,
      \<lparr>report_id = ''mock_2'', platform = ''mock_twitter'',
       content = ''Shelter available at Community Center on Main St. Can accommodate 50 people. #disasterrelief #shelter'',
       author = ''relief_org_official'', createdAt = now - 45 * 60 * 1000,
       report_metrics = \<lparr>replyCount = 2, retweetCount = 25, likeCount = 15\<rparr>,
       url = ''https://twitter.com/mock/status/2'', enrichment = None\<rparr>,
      \<lparr>report_id = ''mock_3'', platform = ''mock_twitter'',
       content = ''URGENT: Medical assistance needed at 123 Oak Street. Elderly person trapped. #SOS #medical #emergency'',
       author = ''first_responder'', createdAt = now - 15 * 60 * 1000,
       report_metrics = \<lparr>replyCount = 8, retweetCount = 35, likeCount = 20\<rparr>,
       url = ''https://twitter.com/mock/status/3'', enrichment = None\<rparr>,
      \<lparr>report_id = ''mock_4'', platform = ''mock_twitter'',
       content = ''Power restored to downtown area. Water still not safe to drink. Boil water advisory in effect. #update'',
       author = ''city_emergency_mgmt'', createdAt = now - 60 * 60 * 1000,
       report_metrics = \<lparr>replyCount = 15, retweetCount = 45, likeCount = 30\<rparr>,
       url = ''https://twitter.com/mock/status/4'', enrichment = None\<rparr>,
      \<lparr>report_id = ''mock_5'', platform = ''mock_twitter'',
       content = ''Volunteers needed at Red Cross center. Bring supplies if possible. #volunteer #help #disaster'',
       author = ''volunteer_coordinator'', createdAt = now - 90 * 60 * 1000,
       report_metrics = \<lparr>replyCount = 3, retweetCount = 18, likeCount = 12\<rparr>,
       url = ''https://twitter.com/mock/status/5'', enrichment = None\<rparr>]"

text \<open>
  \<open>_fetchMockReports(keywords, location, disasterId)\<close>; \<open>location\<close> is not read. The
  call inside the \<open>try\<close> of \<open>fetchReports\<close> passes no \<open>disasterId\<close> (\<open>None\<close>).
\<close>

definition fetchMockReports ::
  "int \<Rightarrow> string list \<Rightarrow> string option \<Rightarrow> (thrown + fetch_result) \<times> log_entry list"
where
  "fetchMockReports now keywords did =
     (let filteredReports =
            (if length keywords > 0 then
               filter (\<lambda>r. list_ex (\<lambda>keyword.
                              js_includes (toLowerCase (content r)) (toLowerCase keyword))
                            keywords)
                 (mockReports now)
             else mockReports now)
      in (Inr \<lparr>reports = filteredReports, reports_source = ''mock'',
                totalFound = length filteredReports, disasterId = did,
                fetchedAt = Some now\<rparr>,
          [\<lparr>service = ''Mock Social Media'', operation = ''fetchReports'', success = True\<rparr>]))"

subsection \<open>The live sources and \<open>fetchReports\<close>\<close>

record social_env =
  TWITTER_BEARER_TOKEN :: "string option"
  BLUESKY_IDENTIFIER :: "string option"
  BLUESKY_PASSWORD :: "string option"

datatype social_service = Twitter | Bluesky | MockService

definition SocialMediaService_service :: "social_env \<Rightarrow> social_service" where
  "SocialMediaService_service env =
     (if truthy (TWITTER_BEARER_TOKEN env) then Twitter
      else if truthy (BLUESKY_IDENTIFIER env) \<and> truthy (BLUESKY_PASSWORD env) then Bluesky
      else MockService)"

definition social_service_name :: "social_service \<Rightarrow> string" where
  "social_service_name s =
     (case s of Twitter \<Rightarrow> ''twitter'' | Bluesky \<Rightarrow> ''bluesky'' | MockService \<Rightarrow> ''mock'')"

text \<open>
  The replies of the two search endpoints, with the posts already in the normalised shape
  (the field renaming is not modelled). \<open>None\<close> is a reply without the \<open>data\<close> (\<open>posts\<close>)
  field; \<open>t_result_count\<close> is \<open>meta.result_count\<close>.
\<close>

record twitter_response =
  t_data :: "report list option"
  t_result_count :: "nat option"

record bluesky_response =
  b_posts :: "report list option"

record social_world =
  twitter_http :: "nat \<Rightarrow> thrown + twitter_response"
  bluesky_http :: "nat \<Rightarrow> thrown + bluesky_response"

definition fetchFromTwitter :: "social_world \<Rightarrow> (thrown + fetch_result) \<times> log_entry list" where
  "fetchFromTwitter w =
     (case retryWithBackoff_default (twitter_http w) of
        Inl error \<Rightarrow> client_catch ''Twitter'' ''fetchReports'' error
      | Inr response \<Rightarrow>
          (case t_data response of
             Some rs \<Rightarrow>
               (Inr \<lparr>reports = rs, reports_source = ''twitter'',
                     totalFound = (case t_result_count response of
                                     None \<Rightarrow> length rs
                                   | Some n \<Rightarrow> if n = 0 then length rs else n),
                     disasterId = None, fetchedAt = None\<rparr>,
                [\<lparr>service = ''Twitter'', operation = ''fetchReports'', success = True\<rparr>])
           | None \<Rightarrow>
               client_catch ''Twitter'' ''fetchReports''
                 (JsError ''No data returned from Twitter API'')))"

definition fetchFromBluesky :: "social_world \<Rightarrow> (thrown + fetch_result) \<times> log_entry list" where
  "fetchFromBluesky w =
     (case retryWithBackoff_default (bluesky_http w) of
        Inl error \<Rightarrow> client_catch ''Bluesky'' ''fetchReports'' error
      | Inr response \<Rightarrow>
          (case b_posts response of
             Some rs \<Rightarrow>
               (Inr \<lparr>reports = rs, reports_source = ''bluesky'', totalFound = length rs,
                     disasterId = None, fetchedAt = None\<rparr>,
                [\<lparr>service = ''Bluesky'', operation = ''fetchReports'', success = True\<rparr>])
           | None \<Rightarrow>
               client_catch ''Bluesky'' ''fetchReports''
                 (JsError ''No data returned from Bluesky API'')))"

text \<open>\<open>keywords.join('_')\<close> and the cache key of \<open>fetchReports\<close>.\<close>

fun js_join :: "string \<Rightarrow> string list \<Rightarrow> string" where
  "js_join sep [] = []"
| "js_join sep [x] = x"
| "js_join sep (x # y # ys) = x @ sep @ js_join sep (y # ys)"

definition fetchReports_cacheKey :: "string \<Rightarrow> string list \<Rightarrow> string" where
  "fetchReports_cacheKey did keywords = ''social_media_'' @ did @ ''_'' @ js_join ''_'' keywords"

text \<open>
  \<open>fetchReports(disasterId, keywords, location)\<close>: cache look-up, the configured source,
  processing, cache write with \<open>ttlHours = 0.17\<close>; whatever is thrown in between is
  caught, logged under the configured service's name (reading \<open>error.message\<close>), and
  answered by the mock source.
\<close>

text \<open>The \<open>switch (this.service)\<close> of \<open>fetchReports\<close>.\<close>

definition fetchReports_switch ::
  "social_service \<Rightarrow> social_world \<Rightarrow> int \<Rightarrow> string list \<Rightarrow>
     (thrown + fetch_result) \<times> log_entry list"
where
  "fetchReports_switch this_service w now keywords =
     (case this_service of
        Twitter \<Rightarrow> fetchFromTwitter w
      | Bluesky \<Rightarrow> fetchFromBluesky w
      | MockService \<Rightarrow> fetchMockReports now keywords None)"

definition fetchReports_catch ::
  "social_service \<Rightarrow> int \<Rightarrow> string list \<Rightarrow> string \<Rightarrow> thrown \<Rightarrow>
     (thrown + fetch_result) \<times> log_entry list"
where
  "fetchReports_catch this_service now keywords did error =
     (case js_message error of
        Inl type_error \<Rightarrow> (Inl type_error, [])
      | Inr message \<Rightarrow>
          (let (r, lg) = fetchMockReports now keywords (Some did)
           in (r, \<lparr>service = social_service_name this_service,
                    operation = ''fetchReports'', success = False\<rparr> # lg)))"

definition fetchReports ::
  "social_env \<Rightarrow> (string \<Rightarrow> string list) \<Rightarrow> social_world \<Rightarrow> int \<Rightarrow>
   fetch_result supabase_client option \<Rightarrow> string \<Rightarrow> string list \<Rightarrow>
     (thrown + fetch_result) \<times> log_entry list \<times> fetch_result supabase_client option"
where
  "fetchReports env extractLocations w now supabase did keywords =
     (let cacheKey = fetchReports_cacheKey did keywords;
          this_service = SocialMediaService_service env
      in case getCachedData supabase now cacheKey of
           (Inl error, sb1) \<Rightarrow>
             (let (r, lg) = fetchReports_catch this_service now keywords did error
              in (r, lg, sb1))
         | (Inr (Some cachedResult), sb1) \<Rightarrow> (Inr cachedResult, [], sb1)
         | (Inr None, sb1) \<Rightarrow>
             (case fetchReports_switch this_service w now keywords of
                (Inr result, lg1) \<Rightarrow>
                  (let processedReports = processReports extractLocations now (reports result) did;
                       finalResult = result\<lparr>reports := processedReports,
                                             disasterId := Some did,
                                             fetchedAt := Some now\<rparr>
                   in case setCachedData sb1 now cacheKey finalResult 0.17 of
                        (Inr u, sb2) \<Rightarrow> (Inr finalResult, lg1, sb2)
                      | (Inl error, sb2) \<Rightarrow>
                          (let (r, lg) = fetchReports_catch this_service now keywords did error
                           in (r, lg1 @ lg, sb2)))
              | (Inl error, lg1) \<Rightarrow>
                  (let (r, lg) = fetchReports_catch this_service now keywords did error
                   in (r, lg1 @ lg, sb1))))"

section \<open>routes/imageVerification.js\<close>

text \<open>
  The two fields of the AI result that the routes read: \<open>isAuthentic\<close>, a boolean, and
  \<open>confidence\<close>, a number. Both routes (single image and
  batch) derive the status with the same statements:
  \<^verbatim>\<open>
  let verificationStatus = 'pending';
  if (verificationResult.isAuthentic && verificationResult.confidence >= 80) {
    verificationStatus = 'verified';
  } else if (!verificationResult.isAuthentic || verificationResult.confidence < 50) {
    verificationStatus = 'rejected';
  }
  \<close>
\<close>

record verification_result =
  isAuthentic :: bool
  confidence :: real

definition verificationStatus :: "verification_result \<Rightarrow> string" where
  "verificationStatus verificationResult =
     (let status = ''pending'' in
      if isAuthentic verificationResult \<and> confidence verificationResult \<ge> 80 then ''verified''
      else if \<not> isAuthentic verificationResult \<or> confidence verificationResult < 50
           then ''rejected''
      else status)"

definition batch_verificationStatus :: "verification_result \<Rightarrow> string" where
  "batch_verificationStatus verificationResult =
     (let status = ''pending'' in
      if isAuthentic verificationResult \<and> confidence verificationResult \<ge> 80 then ''verified''
      else if \<not> isAuthentic verificationResult \<or> confidence verificationResult < 50
           then ''rejected''
      else status)"

section \<open>routes/disasters.js: the rows written by create and update\<close>

text \<open>
  The two shapes of \<open>details\<close> the routes write: \<open>{ title }\<close> on create and
  \<open>{ changes: Object.keys(updateData) }\<close> on update.
\<close>

datatype details = TitleDetails string | ChangesDetails "string list"

text \<open>
  A row of the \<open>disasters\<close> table. \<open>audit_trail\<close> is a JSONB column: \<open>Some t\<close> when it
  holds an array, \<open>None\<close> when it is \<open>null\<close>. \<open>location\<close> is the point
  \<open>(lng, lat)\<close> that \<open>coordinatesToPoint\<close> renders as text.
\<close>

record disaster =
  title :: string
  description :: "string option"
  location_name :: "string option"
  tags :: "string list"
  owner_id :: string
  audit_trail :: "details audit_entry list option"
  location :: "(real \<times> real) option"

definition isValidCoordinates :: "real \<Rightarrow> real \<Rightarrow> bool" where
  "isValidCoordinates la lo = (la \<ge> -90 \<and> la \<le> 90 \<and> lo \<ge> -180 \<and> lo \<le> 180)"

definition coordinatesToPoint :: "real \<Rightarrow> real \<Rightarrow> thrown + (real \<times> real)" where
  "coordinatesToPoint la lo =
     (if \<not> isValidCoordinates la lo then Inl (JsError ''Invalid coordinates provided'')
      else Inr (lo, la))"

text \<open>
  \<open>POST /api/disasters\<close>, after validation: the object passed to \<open>insert\<close>. The body
  fields \<open>description\<close>, \<open>location_name\<close>, \<open>lat\<close>, \<open>lng\<close> may be absent; \<open>tags\<close>
  defaults to the empty array. \<open>if (lat && lng)\<close> is false for an absent or zero number.
\<close>

record create_body =
  c_title :: string
  c_description :: "string option"
  c_location_name :: "string option"
  c_tags :: "string list option"
  c_lat :: "real option"
  c_lng :: "real option"

definition truthy_number :: "real option \<Rightarrow> bool" where
  "truthy_number x = (case x of None \<Rightarrow> False | Some v \<Rightarrow> v \<noteq> 0)"

definition create_disasterData :: "int \<Rightarrow> string \<Rightarrow> create_body \<Rightarrow> thrown + disaster" where
  "create_disasterData now user_id body =
     (let disasterData =
            \<lparr>title = c_title body,
             description = c_description body,
             location_name = c_location_name body,
             tags = (case c_tags body of None \<Rightarrow> [] | Some ts \<Rightarrow> ts),
             owner_id = user_id,
             audit_trail = Some (addAuditEntry now (Some []) ''create'' user_id
                                   (TitleDetails (c_title body))),
             location = None\<rparr>
      in case (c_lat body, c_lng body) of
           (Some la, Some lo) \<Rightarrow>
             (if truthy_number (c_lat body) \<and> truthy_number (c_lng body) then
                (case coordinatesToPoint la lo of
                   Inl error \<Rightarrow> Inl error
                 | Inr point \<Rightarrow> Inr (disasterData\<lparr>location := Some point\<rparr>))
              else Inr disasterData)
         | _ \<Rightarrow> Inr disasterData)"

text \<open>
  \<open>PUT /api/disasters/:id\<close>, after validation, the fetch of \<open>existingDisaster\<close> and the
  ownership check: \<open>updateData\<close> holds the body fields that are not \<open>undefined\<close>, the new
  location when both coordinates are given, and the audit trail
  \<open>addAuditEntry(existingDisaster.audit_trail || [], 'update', req.user.id, {changes})\<close>;
  \<open>update(updateData)\<close> overwrites exactly these columns of the row.
\<close>

record update_body =
  u_title :: "string option"
  u_description :: "string option"
  u_location_name :: "string option"
  u_tags :: "string list option"
  u_lat :: "real option"
  u_lng :: "real option"

definition updateData_keys :: "update_body \<Rightarrow> string list" where
  "updateData_keys body =
     (if u_title body \<noteq> None then [''title''] else []) @
     (if u_description body \<noteq> None then [''description''] else []) @
     (if u_location_name body \<noteq> None then [''location_name''] else []) @
     (if u_tags body \<noteq> None then [''tags''] else []) @
     (if u_lat body \<noteq> None \<and> u_lng body \<noteq> None then [''location''] else [])"

definition update_disaster ::
  "int \<Rightarrow> string \<Rightarrow> update_body \<Rightarrow> disaster \<Rightarrow> thrown + disaster"
where
  "update_disaster now user_id body existingDisaster =
     (let row1 = (case u_title body of None \<Rightarrow> existingDisaster
                  | Some t \<Rightarrow> existingDisaster\<lparr>title := t\<rparr>);
          row2 = (case u_description body of None \<Rightarrow> row1
                  | Some d \<Rightarrow> row1\<lparr>description := Some d\<rparr>);
          row3 = (case u_location_name body of None \<Rightarrow> row2
                  | Some l \<Rightarrow> row2\<lparr>location_name := Some l\<rparr>);
          row4 = (case u_tags body of None \<Rightarrow> row3 | Some ts \<Rightarrow> row3\<lparr>tags := ts\<rparr>);
          trail = addAuditEntry now
                    (case audit_trail existingDisaster of None \<Rightarrow> Some [] | Some t \<Rightarrow> Some t)
                    ''update'' user_id (ChangesDetails (updateData_keys body))
      in case (u_lat body, u_lng body) of
           (Some la, Some lo) \<Rightarrow>
             (case coordinatesToPoint la lo of
                Inl error \<Rightarrow> Inl error
              | Inr point \<Rightarrow> Inr (row4\<lparr>location := Some point, audit_trail := Some trail\<rparr>))
         | _ \<Rightarrow> Inr (row4\<lparr>audit_trail := Some trail\<rparr>))"

section \<open>services/officialUpdatesService.js\<close>

text \<open>
  An update as \<open>_fetchFromSource\<close> and \<open>_fetchMockUpdates\<close> build it, and the result
  object of \<open>fetchUpdates\<close>. Times are in milliseconds.
\<close>

record official_update =
  ou_id :: string
  ou_source :: string
  ou_title :: string
  ou_content :: string
  ou_url :: string
  publishedAt :: int
  ou_fetchedAt :: int

record updates_result =
  updates :: "official_update list"
  ou_disasterId :: "string option"
  ou_result_fetchedAt :: int
  ou_totalFound :: nat

text \<open>
  The three sources of the constructor, each with what its page answers to the
  successive \<open>axios.get\<close> attempts. The scraping of a page (selectors, the keyword filter
  on the scraped items, URL and date handling) is not modelled: a reply is given as the
  list of updates that \<open>_fetchFromSource\<close> builds from it.
\<close>

record updates_world =
  fema_http :: "nat \<Rightarrow> thrown + official_update list"
  redcross_http :: "nat \<Rightarrow> thrown + official_update list"
  nws_http :: "nat \<Rightarrow> thrown + official_update list"

definition this_sources ::
  "updates_world \<Rightarrow> (string \<times> (nat \<Rightarrow> thrown + official_update list)) list"
where
  "this_sources w =
     [(''FEMA'', fema_http w),
      (''Red Cross'', redcross_http w),
      (''National Weather Service'', nws_http w)]"

definition fetchFromSource ::
  "string \<Rightarrow> (nat \<Rightarrow> thrown + official_update list) \<Rightarrow>
     (thrown + official_update list) \<times> log_entry list"
where
  "fetchFromSource name http =
     (case retryWithBackoff_default http of
        Inl error \<Rightarrow> client_catch name ''fetchUpdates'' error
      | Inr found \<Rightarrow>
          (Inr found, [\<lparr>service = name, operation = ''fetchUpdates'', success = True\<rparr>]))"

definition mockUpdates :: "int \<Rightarrow> official_update list" where
  "mockUpdates now =
     [\<lparr>ou_id = ''fema_mock_1'', ou_source = ''FEMA'',
       ou_title = ''Federal Disaster Declaration Approved for Flood-Affected Areas'',
       ou_content = ''FEMA has approved federal disaster assistance for individuals and communities affected by recent flooding. Residents can now apply for temporary housing assistance, home repairs, and other disaster-related expenses.'',
       ou_url = ''https://www.fema.gov/disaster/mock-declaration-1'',
       publishedAt = now - 2 * 60 * 60 * 1000, ou_fetchedAt = now\<rparr>,
      \<lparr>ou_id = ''redcross_mock_1'', ou_source = ''Red Cross'',
       ou_title = ''Emergency Shelters Open in Affected Communities'',
       ou_content = ''The American Red Cross has opened emergency shelters in three locations to provide safe housing for displaced families. Shelters are equipped with food, water, and basic necessities.'',
       ou_url = ''https://www.redcross.org/mock-shelter-update-1'',
       publishedAt = now - 4 * 60 * 60 * 1000, ou_fetchedAt = now\<rparr>,
      \<lparr>ou_id = ''nws_mock_1'', ou_source = ''National Weather Service'',
       ou_title = ''Flash Flood Warning Extended Through Tomorrow'',
       ou_content = ''The National Weather Service has extended the flash flood warning for the metropolitan area through tomorrow evening. Residents are advised to avoid travel in low-lying areas and never drive through flooded roads.'',
       ou_url = ''https://www.weather.gov/mock-flood-warning-1'',
       publishedAt = now - 6 * 60 * 60 * 1000, ou_fetchedAt = now\<rparr>,
      \<lparr>ou_id = ''local_emergency_mock_1'', ou_source = ''Local Emergency Management'',
       ou_title = ''Water Distribution Points Established'',
       ou_content = ''Local emergency management has established water distribution points at three locations throughout the city. Each family can receive up to 5 gallons of drinking water per day.'',
       ou_url = ''https://local-emergency.gov/mock-water-distribution'',
       publishedAt = now - 8 * 60 * 60 * 1000, ou_fetchedAt = now\<rparr>,
      \<lparr>ou_id = ''utility_company_mock_1'', ou_source = ''Utility Company'',
       ou_title = ''Power Restoration Update - 75% of Customers Restored'',
       ou_content = ''Power has been restored to 75% of affected customers. Crews are working around the clock to restore service to remaining areas. Full restoration expected within 48 hours.'',
       ou_url = ''https://utility-company.com/mock-power-update'',
       publishedAt = now - 10 * 60 * 60 * 1000, ou_fetchedAt = now\<rparr>]"

text \<open>
  \<open>_fetchMockUpdates(keywords, disasterId)\<close>: the canned updates, filtered when keywords
  are given; a keyword matches an update when it occurs in the lower-cased title or in
  the lower-cased content. It returns an object, not an array.
\<close>

definition fetchMockUpdates ::
  "int \<Rightarrow> string list \<Rightarrow> string option \<Rightarrow> (thrown + updates_result) \<times> log_entry list"
where
  "fetchMockUpdates now keywords did =
     (let filteredUpdates =
            (if length keywords > 0 then
               filter (\<lambda>u. list_ex (\<lambda>keyword.
                              js_includes (toLowerCase (ou_title u)) (toLowerCase keyword) \<or>
                              js_includes (toLowerCase (ou_content u)) (toLowerCase keyword))
                            keywords)
                 (mockUpdates now)
             else mockUpdates now)
      in (Inr \<lparr>updates = filteredUpdates, ou_disasterId = did,
                ou_result_fetchedAt = now, ou_totalFound = length filteredUpdates\<rparr>,
          [\<lparr>service = ''Mock Official Updates'', operation = ''fetchUpdates'',
            success = True\<rparr>]))"

text \<open>
  \<open>allUpdates.push(...x)\<close> spreads \<open>x\<close> into the arguments of \<open>push\<close>, which needs
  \<open>x\<close> to be iterable. An array is; a plain object, such as the one
  \<open>_fetchMockUpdates\<close> returns, is not, and spreading it throws a \<open>TypeError\<close>.
\<close>

datatype spread_arg = SpreadArray "official_update list" | SpreadObject updates_result

definition push_spread :: "official_update list \<Rightarrow> spread_arg \<Rightarrow> thrown + official_update list" where
  "push_spread allUpdates x =
     (case x of
        SpreadArray us \<Rightarrow> Inr (allUpdates @ us)
      | SpreadObject ob \<Rightarrow> Inl (JsError ''TypeError: Spread syntax requires an iterable''))"

text \<open>
  The loop over \<open>this.sources\<close>: a source that fails is logged with \<open>error.message\<close>
  and skipped.
\<close>

fun fetch_sources ::
  "(string \<times> (nat \<Rightarrow> thrown + official_update list)) list \<Rightarrow> official_update list \<Rightarrow>
     (thrown + official_update list) \<times> log_entry list"
where
  "fetch_sources [] allUpdates = (Inr allUpdates, [])"
| "fetch_sources ((name, http) # rest) allUpdates =
     (case fetchFromSource name http of
        (Inr found, lg) \<Rightarrow>
          (case push_spread allUpdates (SpreadArray found) of
             Inl error \<Rightarrow>
               (case js_message error of
                  Inl type_error \<Rightarrow> (Inl type_error, lg)
                | Inr message \<Rightarrow>
                    (let (r, lg') = fetch_sources rest allUpdates in (r, lg @ lg')))
           | Inr allUpdates' \<Rightarrow>
               (let (r, lg') = fetch_sources rest allUpdates' in (r, lg @ lg')))
      | (Inl error, lg) \<Rightarrow>
          (case js_message error of
             Inl type_error \<Rightarrow> (Inl type_error, lg)
           | Inr message \<Rightarrow>
               (let (r, lg') = fetch_sources rest allUpdates in (r, lg @ lg'))))"

definition fetchUpdates_cacheKey :: "string \<Rightarrow> string list \<Rightarrow> string" where
  "fetchUpdates_cacheKey did keywords =
     ''official_updates_'' @ did @ ''_'' @ js_join ''_'' keywords"

text \<open>The outer \<open>catch\<close> of \<open>fetchUpdates\<close>.\<close>

definition fetchUpdates_catch ::
  "int \<Rightarrow> string list \<Rightarrow> string \<Rightarrow> thrown \<Rightarrow> (thrown + updates_result) \<times> log_entry list"
where
  "fetchUpdates_catch now keywords did error =
     (case js_message error of
        Inl type_error \<Rightarrow> (Inl type_error, [])
      | Inr message \<Rightarrow>
          (let (r, lg) = fetchMockUpdates now keywords (Some did)
           in (r, \<lparr>service = ''Official Updates'', operation = ''fetchUpdates'',
                    success = False\<rparr> # lg)))"

text \<open>
  \<open>fetchUpdates(disasterId, keywords)\<close>: cache look-up; on a miss the loop over the
  sources, then \<open>mockUpdates = await this._fetchMockUpdates(keywords)\<close> and
  \<open>allUpdates.push(...mockUpdates)\<close>, the sort by \<open>publishedAt\<close> (newest first), the
  result object and the cache write with \<open>ttlHours = 1\<close>; whatever is thrown in between
  goes to the outer \<open>catch\<close>.
\<close>

definition fetchUpdates ::
  "updates_world \<Rightarrow> int \<Rightarrow> updates_result supabase_client option \<Rightarrow> string \<Rightarrow> string list \<Rightarrow>
     (thrown + updates_result) \<times> log_entry list \<times> updates_result supabase_client option"
where
  "fetchUpdates w now supabase did keywords =
     (let cacheKey = fetchUpdates_cacheKey did keywords
      in case getCachedData supabase now cacheKey of
           (Inl error, sb1) \<Rightarrow>
             (let (r, lg) = fetchUpdates_catch now keywords did error in (r, lg, sb1))
         | (Inr (Some cachedResult), sb1) \<Rightarrow> (Inr cachedResult, [], sb1)
         | (Inr None, sb1) \<Rightarrow>
             (case fetch_sources (this_sources w) [] of
                (Inl error, lg1) \<Rightarrow>
                  (let (r, lg) = fetchUpdates_catch now keywords did error
                   in (r, lg1 @ lg, sb1))
              | (Inr allUpdates, lg1) \<Rightarrow>
                  (case fetchMockUpdates now keywords None of
                     (Inl error, lg2) \<Rightarrow>
                       (let (r, lg) = fetchUpdates_catch now keywords did error
                        in (r, lg1 @ lg2 @ lg, sb1))
                   | (Inr mock, lg2) \<Rightarrow>
                       (case push_spread allUpdates (SpreadObject mock) of
                          Inl error \<Rightarrow>
                            (let (r, lg) = fetchUpdates_catch now keywords did error
                             in (r, lg1 @ lg2 @ lg, sb1))
                        | Inr allUpdates' \<Rightarrow>
                            (let sortedUpdates = sort_key (\<lambda>u. - publishedAt u) allUpdates';
                                 result = \<lparr>updates = sortedUpdates,
                                           ou_disasterId = Some did,
                                           ou_result_fetchedAt = now,
                                           ou_totalFound = length sortedUpdates\<rparr>
                             in case setCachedData sb1 now cacheKey result 1 of
                                  (Inr u, sb2) \<Rightarrow> (Inr result, lg1 @ lg2, sb2)
                                | (Inl error, sb2) \<Rightarrow>
                                    (let (r, lg) = fetchUpdates_catch now keywords did error
                                     in (r, lg1 @ lg2 @ lg, sb2)))))))"

section \<open>A configuration with two keys\<close>

text \<open>
  A deployment with both a Google key and a Mapbox token, at a moment when the Google
  endpoint times out on every attempt while Mapbox and Nominatim answer the query.
\<close>

definition both_keys_env :: geocoding_env where
  "both_keys_env = \<lparr>GOOGLE_MAPS_API_KEY = Some ''g-key'', MAPBOX_ACCESS_TOKEN = Some ''m-token''\<rparr>"

definition miami_components :: address_components where
  "miami_components = \<lparr>city = Some ''Miami'', state = Some ''FL'',
                        country = Some ''United States'', zipCode = None\<rparr>"

definition google_down_world :: geo_world where
  "google_down_world =
     \<lparr>google_http = (\<lambda>k. Inl (JsError ''timeout of 10000ms exceeded'')),
      mapbox_http = (\<lambda>k. Inr \<lparr>m_features = Some
                       [\<lparr>m_center_lng = -80.19, m_center_lat = 25.77,
                         m_place_name = ''Miami, Florida, United States'',
                         m_components = miami_components, m_accuracy = None\<rparr>]\<rparr>),
      nominatim_http = (\<lambda>k. Inr \<lparr>n_data = Some
                       [\<lparr>n_lat = 25.7742, n_lon = -80.1936,
                         n_display_name = ''Miami, Miami-Dade County, Florida, United States'',
                         n_components = miami_components, n_importance = Some 0.8\<rparr>]\<rparr>)\<rparr>"

section \<open>The spec's wording of geocoding\<close>

text \<open>
  The spec (section 4.4) words the geocoding step as a chain: the first provider, by
  priority primary API, then secondary, then open fallback, to return a result wins, and
  the mock variant answers only when all of them fail. This definition follows those
  words; it is compared with \<open>geocode\<close> below.
\<close>

definition spec_geocode_chain :: "geo_world \<Rightarrow> real \<Rightarrow> real \<Rightarrow> string \<Rightarrow> thrown + geocode_result" where
  "spec_geocode_chain w r1 r2 locationName =
     (case fst (geocodeWithGoogle w) of
        Inr r \<Rightarrow> Inr r
      | Inl e1 \<Rightarrow>
          (case fst (geocodeWithMapbox w) of
             Inr r \<Rightarrow> Inr r
           | Inl e2 \<Rightarrow>
               (case fst (geocodeWithNominatim w) of
                  Inr r \<Rightarrow> Inr r
                | Inl e3 \<Rightarrow> fst (geocodeMock r1 r2 locationName))))"

text \<open>Case-insensitive substring presence, as a property of the two strings.\<close>

definition contains_ci :: "string \<Rightarrow> string \<Rightarrow> bool" where
  "contains_ci c keyword = (\<exists>p s. toLowerCase c = p @ toLowerCase keyword @ s)"

section \<open>Substring presence\<close>

lemma js_includes_iff: "js_includes t k \<longleftrightarrow> (\<exists>p s. t = p @ k @ s)"
proof (induction t)
  case Nil
  then show ?case by auto
next
  case (Cons c cs)
  show ?case
  proof
    assume "js_includes (c # cs) k"
    then consider "prefix k (c # cs)" | "js_includes cs k" by auto
    then show "\<exists>p s. c # cs = p @ k @ s"
    proof cases
      case 1
      then obtain s where "c # cs = k @ s" by (auto simp: prefix_def)
      then have "c # cs = [] @ k @ s" by simp
      then show ?thesis by blast
    next
      case 2
      with Cons.IH obtain p s where "cs = p @ k @ s" by auto
      then have "c # cs = (c # p) @ k @ s" by simp
      then show ?thesis by blast
    qed
  next
    assume "\<exists>p s. c # cs = p @ k @ s"
    then obtain p s where eq: "c # cs = p @ k @ s" by auto
    show "js_includes (c # cs) k"
    proof (cases p)
      case Nil
      with eq have "prefix k (c # cs)" by (simp add: prefix_def)
      then show ?thesis by simp
    next
      case (Cons a p')
      with eq have "cs = p' @ k @ s" by simp
      with Cons.IH have "js_includes cs k" by blast
      then show ?thesis by simp
    qed
  qed
qed

lemma js_includes_contains_ci:
  "js_includes (toLowerCase c) (toLowerCase k) = contains_ci c k"
  by (simp add: js_includes_iff contains_ci_def)

section \<open>The priority score\<close>

lemma fold_add_count:
  "fold (\<lambda>k (s::int). if P k then s + w else s) ks s0 = s0 + w * int (length (filter P ks))"
  by (induction ks arbitrary: s0) (auto simp: algebra_simps)

lemma count_present:
  assumes "distinct ks" and "\<forall>k \<in> set ks. toLowerCase k = k"
  shows "length (filter (js_includes (toLowerCase c)) ks) = card {k \<in> set ks. contains_ci c k}"
proof -
  have "filter (js_includes (toLowerCase c)) ks = filter (contains_ci c) ks"
  proof (rule filter_cong[OF refl])
    fix k assume "k \<in> set ks"
    with assms(2) have "toLowerCase k = k" by blast
    then show "js_includes (toLowerCase c) k = contains_ci c k"
      using js_includes_contains_ci[of c k] by simp
  qed
  moreover have "length (filter (contains_ci c) ks) = card ({k. contains_ci c k} \<inter> set ks)"
    using assms(1) by (rule distinct_length_filter)
  moreover have "{k. contains_ci c k} \<inter> set ks = {k \<in> set ks. contains_ci c k}" by blast
  ultimately show ?thesis by simp
qed

lemma urgent_count:
  "length (filter (js_includes (toLowerCase c)) urgentKeywords)
     = card {k \<in> set urgentKeywords. contains_ci c k}"
  by (rule count_present) (simp_all add: urgentKeywords_def toLowerCase_char_def)

lemma moderate_count:
  "length (filter (js_includes (toLowerCase c)) moderateKeywords)
     = card {k \<in> set moderateKeywords. contains_ci c k}"
  by (rule count_present) (simp_all add: moderateKeywords_def toLowerCase_char_def)

lemma low_count:
  "length (filter (js_includes (toLowerCase c)) lowKeywords)
     = card {k \<in> set lowKeywords. contains_ci c k}"
  by (rule count_present) (simp_all add: lowKeywords_def toLowerCase_char_def)

lemma score_unfold:
  "calculatePriorityScore c =
     min 10 (1 + 3 * int (length (filter (js_includes (toLowerCase c)) urgentKeywords))
               + 2 * int (length (filter (js_includes (toLowerCase c)) moderateKeywords))
               + 1 * int (length (filter (js_includes (toLowerCase c)) lowKeywords)))"
  unfolding calculatePriorityScore_def Let_def fold_add_count by simp

text \<open>
  C5. For every content string the priority score is the baseline 1, plus 3 for each
  urgent keyword present, plus 2 for each moderate keyword present, plus 1 for each low
  keyword present (presence being case-insensitive substring presence), capped at 10; it
  lies between 1 and 10; and with at least one urgent keyword present it is at least the
  baseline plus 3.
\<close>

theorem priority_score_formula:
  "calculatePriorityScore c =
     min 10 (1 + 3 * int (card {k \<in> set urgentKeywords. contains_ci c k})
               + 2 * int (card {k \<in> set moderateKeywords. contains_ci c k})
               + 1 * int (card {k \<in> set lowKeywords. contains_ci c k}))
   \<and> 1 \<le> calculatePriorityScore c \<and> calculatePriorityScore c \<le> 10
   \<and> ((\<exists>k \<in> set urgentKeywords. contains_ci c k) \<longrightarrow> 1 + 3 \<le> calculatePriorityScore c)"
proof -
  let ?u = "card {k \<in> set urgentKeywords. contains_ci c k}"
  let ?m = "card {k \<in> set moderateKeywords. contains_ci c k}"
  let ?l = "card {k \<in> set lowKeywords. contains_ci c k}"
  have formula: "calculatePriorityScore c = min 10 (1 + 3 * int ?u + 2 * int ?m + 1 * int ?l)"
    by (simp only: score_unfold urgent_count moderate_count low_count)
  have urgent: "0 < ?u" if "\<exists>k \<in> set urgentKeywords. contains_ci c k"
  proof -
    from that have "{k \<in> set urgentKeywords. contains_ci c k} \<noteq> {}" by blast
    then show ?thesis by (simp add: card_gt_0_iff)
  qed
  show ?thesis
  proof (intro conjI impI)
    show "calculatePriorityScore c = min 10 (1 + 3 * int ?u + 2 * int ?m + 1 * int ?l)"
      by (rule formula)
    show "1 \<le> calculatePriorityScore c" unfolding formula by simp
    show "calculatePriorityScore c \<le> 10" unfolding formula by simp
    show "1 + 3 \<le> calculatePriorityScore c" if "\<exists>k \<in> set urgentKeywords. contains_ci c k"
      using urgent[OF that] unfolding formula by simp
  qed
qed

lemma mock3_urgent: "contains_ci ''URGENT: Medical assistance needed at 123 Oak Street.'' ''urgent''"
  unfolding js_includes_contains_ci[symmetric] by code_simp

theorem priority_score_formula_witness:
  "(\<exists>k \<in> set urgentKeywords. contains_ci ''URGENT: Medical assistance needed at 123 Oak Street.'' k)
   \<and> 1 + 3 \<le> calculatePriorityScore ''URGENT: Medical assistance needed at 123 Oak Street.''
   \<and> calculatePriorityScore ''URGENT: Medical assistance needed at 123 Oak Street.'' \<le> 10"
proof -
  have h: "\<exists>k \<in> set urgentKeywords. contains_ci ''URGENT: Medical assistance needed at 123 Oak Street.'' k"
    using mock3_urgent by (auto simp: urgentKeywords_def)
  with priority_score_formula[of "''URGENT: Medical assistance needed at 123 Oak Street.''"]
  show ?thesis by blast
qed

section \<open>Category classification\<close>

lemma categories_lower:
  "(cat, kws) \<in> set categories \<Longrightarrow> k \<in> set kws \<Longrightarrow> toLowerCase k = k"
  by (auto simp: categories_def toLowerCase_char_def)

lemma list_ex_group:
  assumes "\<forall>k \<in> set kws. toLowerCase k = k"
  shows "list_ex (js_includes (toLowerCase c)) kws = (\<exists>k \<in> set kws. contains_ci c k)"
proof -
  have "js_includes (toLowerCase c) k = contains_ci c k" if "k \<in> set kws" for k
    using that assms js_includes_contains_ci[of c k] by simp
  then show ?thesis by (auto simp: list_ex_iff)
qed

lemma categorize_loop_first:
  assumes "\<forall>(c', kws') \<in> set pre. \<not> list_ex (js_includes t) kws'"
    and "list_ex (js_includes t) kws"
  shows "categorize_loop t (pre @ (cat, kws) # post) = cat"
  using assms by (induction pre) auto

lemma categorize_loop_none:
  assumes "\<forall>(c', kws') \<in> set entries. \<not> list_ex (js_includes t) kws'"
  shows "categorize_loop t entries = ''general''"
  using assms by (induction entries) auto

lemma categorize_loop_range:
  "categorize_loop t entries \<in> set (map fst entries) \<union> {''general''}"
proof (induction entries)
  case Nil
  then show ?case by simp
next
  case (Cons e entries)
  obtain cat kws where e: "e = (cat, kws)" by (cases e)
  show ?case
  proof (cases "list_ex (js_includes t) kws")
    case True
    then show ?thesis by (simp add: e)
  next
    case False
    then have "categorize_loop t (e # entries) = categorize_loop t entries" by (simp add: e)
    with Cons.IH show ?thesis by auto
  qed
qed

text \<open>
  C6. For every text the classification returns one category: the groups are tried in
  the fixed order medical, shelter, food_water, rescue, information, volunteer,
  infrastructure; the first group with a keyword that occurs in the text
  (case-insensitive substring) gives the category, whatever later groups match, and
  \<open>general\<close> is returned when no group matches. The result is a function of the text
  alone, so repeated invocations agree.
\<close>

theorem categorize_first_match:
  "map fst categories = [''medical'', ''shelter'', ''food_water'', ''rescue'', ''information'',
                          ''volunteer'', ''infrastructure'']
   \<and> (\<forall>pre cat kws post.
         categories = pre @ (cat, kws) # post
         \<and> (\<exists>k \<in> set kws. contains_ci c k)
         \<and> (\<forall>(c', kws') \<in> set pre. \<not> (\<exists>k \<in> set kws'. contains_ci c k))
         \<longrightarrow> categorizeReport c = cat)
   \<and> ((\<forall>(c', kws') \<in> set categories. \<not> (\<exists>k \<in> set kws'. contains_ci c k))
         \<longrightarrow> categorizeReport c = ''general'')
   \<and> categorizeReport c \<in> set (map fst categories) \<union> {''general''}"
proof (intro conjI allI impI)
  show "map fst categories = [''medical'', ''shelter'', ''food_water'', ''rescue'',
                               ''information'', ''volunteer'', ''infrastructure'']"
    by (simp add: categories_def)
next
  fix pre cat kws post
  assume h: "categories = pre @ (cat, kws) # post
             \<and> (\<exists>k \<in> set kws. contains_ci c k)
             \<and> (\<forall>(c', kws') \<in> set pre. \<not> (\<exists>k \<in> set kws'. contains_ci c k))"
  then have split: "categories = pre @ (cat, kws) # post" by blast
  have lower: "\<forall>k \<in> set kws'. toLowerCase k = k" if "(c', kws') \<in> set categories" for c' kws'
    using that categories_lower by blast
  have mem: "(cat, kws) \<in> set categories" and sub: "set pre \<subseteq> set categories"
    by (subst split, auto)+
  from mem have here: "list_ex (js_includes (toLowerCase c)) kws"
    using h list_ex_group[OF lower] by blast
  have before: "\<forall>(c', kws') \<in> set pre. \<not> list_ex (js_includes (toLowerCase c)) kws'"
  proof (clarify)
    fix c' kws' assume m: "(c', kws') \<in> set pre" and ex: "list_ex (js_includes (toLowerCase c)) kws'"
    from m sub have "(c', kws') \<in> set categories" by blast
    with ex have "\<exists>k \<in> set kws'. contains_ci c k" using list_ex_group[OF lower] by blast
    with h m show False by blast
  qed
  show "categorizeReport c = cat"
    unfolding categorizeReport_def split by (rule categorize_loop_first[OF before here])
next
  assume h: "\<forall>(c', kws') \<in> set categories. \<not> (\<exists>k \<in> set kws'. contains_ci c k)"
  have "\<forall>(c', kws') \<in> set categories. \<not> list_ex (js_includes (toLowerCase c)) kws'"
  proof (clarify)
    fix c' kws' assume m: "(c', kws') \<in> set categories" and ex: "list_ex (js_includes (toLowerCase c)) kws'"
    have "\<forall>k \<in> set kws'. toLowerCase k = k" using m categories_lower by blast
    with ex have "\<exists>k \<in> set kws'. contains_ci c k" using list_ex_group by blast
    with h m show False by blast
  qed
  then show "categorizeReport c = ''general''"
    unfolding categorizeReport_def by (rule categorize_loop_none)
next
  show "categorizeReport c \<in> set (map fst categories) \<union> {''general''}"
    unfolding categorizeReport_def by (rule categorize_loop_range)
qed

lemma shelter_food_groups:
  "(\<exists>k \<in> set [''shelter'', ''housing'', ''accommodation'', ''place to stay''].
      contains_ci ''Shelter and FOOD here'' k)
   \<and> (\<forall>(c', kws') \<in> set [(''medical'', [''medical'', ''injured'', ''hospital'', ''ambulance'', ''doctor''])].
        \<not> (\<exists>k \<in> set kws'. contains_ci ''Shelter and FOOD here'' k))"
  unfolding js_includes_contains_ci[symmetric] by code_simp

lemma hello_no_group:
  "\<forall>(c', kws') \<in> set categories. \<not> (\<exists>k \<in> set kws'. contains_ci ''Hello world'' k)"
  unfolding js_includes_contains_ci[symmetric] by code_simp

text \<open>
  A text that spells STUCK with the Kelvin sign U+212A, whose lower case is \<open>k\<close>, for
  its last letter.
\<close>

lemma kelvin_stuck_groups:
  "(\<exists>k \<in> set [''trapped'', ''rescue'', ''stuck'', ''help'', ''sos''].
      contains_ci (''STUC'' @ [CHR 0xE2, CHR 0x84, CHR 0xAA]) k)
   \<and> (\<forall>(c', kws') \<in> set [(''medical'', [''medical'', ''injured'', ''hospital'', ''ambulance'', ''doctor'']),
                            (''shelter'', [''shelter'', ''housing'', ''accommodation'', ''place to stay'']),
                            (''food_water'', [''food'', ''water'', ''hungry'', ''thirsty'', ''supplies''])].
        \<not> (\<exists>k \<in> set kws'. contains_ci (''STUC'' @ [CHR 0xE2, CHR 0x84, CHR 0xAA]) k))"
  unfolding js_includes_contains_ci[symmetric] by code_simp

theorem categorize_first_match_witness:
  "categorizeReport ''Shelter and FOOD here'' = ''shelter''
   \<and> categorizeReport ''Hello world'' = ''general''
   \<and> categorizeReport (''STUC'' @ [CHR 0xE2, CHR 0x84, CHR 0xAA]) = ''rescue''"
proof (intro conjI)
  have rescue: "categories =
      [(''medical'', [''medical'', ''injured'', ''hospital'', ''ambulance'', ''doctor'']),
       (''shelter'', [''shelter'', ''housing'', ''accommodation'', ''place to stay'']),
       (''food_water'', [''food'', ''water'', ''hungry'', ''thirsty'', ''supplies''])]
      @ (''rescue'', [''trapped'', ''rescue'', ''stuck'', ''help'', ''sos''])
      # [(''information'', [''update'', ''info'', ''status'', ''news'', ''report'']),
         (''volunteer'', [''volunteer'', ''helping'', ''assist'', ''support'']),
         (''infrastructure'', [''power'', ''electricity'', ''road'', ''bridge'', ''water system''])]"
    by (simp add: categories_def)
  from categorize_first_match[of "''STUC'' @ [CHR 0xE2, CHR 0x84, CHR 0xAA]"] rescue
    kelvin_stuck_groups
  show "categorizeReport (''STUC'' @ [CHR 0xE2, CHR 0x84, CHR 0xAA]) = ''rescue''" by blast
  have split: "categories =
      [(''medical'', [''medical'', ''injured'', ''hospital'', ''ambulance'', ''doctor''])]
      @ (''shelter'', [''shelter'', ''housing'', ''accommodation'', ''place to stay''])
      # [(''food_water'', [''food'', ''water'', ''hungry'', ''thirsty'', ''supplies'']),
         (''rescue'', [''trapped'', ''rescue'', ''stuck'', ''help'', ''sos'']),
         (''information'', [''update'', ''info'', ''status'', ''news'', ''report'']),
         (''volunteer'', [''volunteer'', ''helping'', ''assist'', ''support'']),
         (''infrastructure'', [''power'', ''electricity'', ''road'', ''bridge'', ''water system''])]"
    by (simp add: categories_def)
  from categorize_first_match[of "''Shelter and FOOD here''"] split shelter_food_groups
  show "categorizeReport ''Shelter and FOOD here'' = ''shelter''" by blast
  from categorize_first_match[of "''Hello world''"] hello_no_group
  show "categorizeReport ''Hello world'' = ''general''" by blast
qed

section \<open>The mock source\<close>

lemma mock_contents:
  "map content (mockReports now) =
     [''#floodrelief Need food and water in Lower East Side. Families trapped on 3rd floor. #emergency #NYC'',
      ''Shelter available at Community Center on Main St. Can accommodate 50 people. #disasterrelief #shelter'',
      ''URGENT: Medical assistance needed at 123 Oak Street. Elderly person trapped. #SOS #medical #emergency'',
      ''Power restored to downtown area. Water still not safe to drink. Boil water advisory in effect. #update'',
      ''Volunteers needed at Red Cross center. Bring supplies if possible. #volunteer #help #disaster'']"
  by (simp add: mockReports_def)

lemma no_earthquake:
  "r \<in> set (mockReports now) \<Longrightarrow> \<not> contains_ci (content r) ''earthquake''"
proof -
  assume "r \<in> set (mockReports now)"
  then have "content r \<in> set (map content (mockReports now))" by simp
  moreover have "\<forall>c \<in> set (map content (mockReports now)). \<not> contains_ci c ''earthquake''"
    unfolding mock_contents js_includes_contains_ci[symmetric] by code_simp
  ultimately show ?thesis by blast
qed

lemma fetchMockReports_reports:
  "fst (fetchMockReports now keywords did) =
     Inr \<lparr>reports = (if keywords = [] then mockReports now
                      else filter (\<lambda>r. \<exists>k \<in> set keywords. contains_ci (content r) k)
                             (mockReports now)),
          reports_source = ''mock'',
          totalFound = length (if keywords = [] then mockReports now
                               else filter (\<lambda>r. \<exists>k \<in> set keywords. contains_ci (content r) k)
                                      (mockReports now)),
          disasterId = did, fetchedAt = Some now\<rparr>"
  by (simp add: fetchMockReports_def Let_def list_ex_iff js_includes_contains_ci)

text \<open>
  C10. For every keyword list the mock fetch succeeds and returns exactly the canned
  posts whose content contains at least one of the keywords as a case-insensitive
  substring, in their order, and all five canned posts when the list is empty; there is a
  non-empty keyword list for which it succeeds with an empty \<open>reports\<close> array.
\<close>

theorem mock_reports_filter:
  "(\<exists>res. fst (fetchMockReports now keywords did) = Inr res
          \<and> reports res = (if keywords = [] then mockReports now
                           else filter (\<lambda>r. \<exists>k \<in> set keywords. contains_ci (content r) k)
                                  (mockReports now))
          \<and> totalFound res = length (reports res)
          \<and> reports_source res = ''mock'')
   \<and> length (mockReports now) = 5
   \<and> (\<exists>ks res. ks \<noteq> [] \<and> fst (fetchMockReports now ks did) = Inr res \<and> reports res = [])"
proof (intro conjI)
  show "\<exists>res. fst (fetchMockReports now keywords did) = Inr res
          \<and> reports res = (if keywords = [] then mockReports now
                           else filter (\<lambda>r. \<exists>k \<in> set keywords. contains_ci (content r) k)
                                  (mockReports now))
          \<and> totalFound res = length (reports res)
          \<and> reports_source res = ''mock''"
    unfolding fetchMockReports_reports by simp
  show "length (mockReports now) = 5" by (simp add: mockReports_def)
  have "filter (\<lambda>r. \<exists>k \<in> set [''earthquake'']. contains_ci (content r) k) (mockReports now) = []"
    using no_earthquake by (simp add: filter_empty_conv)
  then have "fst (fetchMockReports now [''earthquake''] did) =
               Inr \<lparr>reports = [], reports_source = ''mock'', totalFound = 0,
                    disasterId = did, fetchedAt = Some now\<rparr>"
    unfolding fetchMockReports_reports by simp
  then show "\<exists>ks res. ks \<noteq> [] \<and> fst (fetchMockReports now ks did) = Inr res \<and> reports res = []"
    by (intro exI[of _ "[''earthquake'']"] exI[of _ "\<lparr>reports = [], reports_source = ''mock'', totalFound = 0,
                    disasterId = did, fetchedAt = Some now\<rparr>"]) simp
qed

theorem mock_reports_filter_witness:
  "(\<exists>res. fst (fetchMockReports 0 [''SHELTER''] None) = Inr res
         \<and> map report_id (reports res) = [''mock_2'']
         \<and> totalFound res = 1)
   \<and> (\<exists>res. fst (fetchMockReports 0 [''DRIN'' @ [CHR 0xE2, CHR 0x84, CHR 0xAA]] None) = Inr res
         \<and> map report_id (reports res) = [''mock_4'']
         \<and> totalFound res = 1)"
proof (intro conjI)
  let ?kw = "''DRIN'' @ [CHR 0xE2, CHR 0x84, CHR 0xAA]"
  have sel: "filter (\<lambda>r. \<exists>k \<in> set [?kw]. contains_ci (content r) k) (mockReports 0)
         = [(mockReports 0) ! 3]"
    unfolding js_includes_contains_ci[symmetric] by code_simp
  from mock_reports_filter[of 0 "[?kw]" None]
  obtain res where r: "fst (fetchMockReports 0 [?kw] None) = Inr res"
     "reports res = filter (\<lambda>r. \<exists>k \<in> set [?kw]. contains_ci (content r) k) (mockReports 0)"
     "totalFound res = length (reports res)"
    by auto
  have "map report_id (reports res) = [''mock_4'']"
    unfolding r(2) sel by (simp add: mockReports_def)
  moreover have "totalFound res = 1"
    unfolding r(3) r(2) sel by simp
  ultimately show "\<exists>res. fst (fetchMockReports 0 [?kw] None) = Inr res
         \<and> map report_id (reports res) = [''mock_4''] \<and> totalFound res = 1"
    using r(1) by simp
next
  have sel: "filter (\<lambda>r. \<exists>k \<in> set [''SHELTER'']. contains_ci (content r) k) (mockReports 0)
         = [(mockReports 0) ! 1]"
    unfolding js_includes_contains_ci[symmetric] by code_simp
  from mock_reports_filter[of 0 "[''SHELTER'']" None]
  obtain res where r: "fst (fetchMockReports 0 [''SHELTER''] None) = Inr res"
     "reports res = filter (\<lambda>r. \<exists>k \<in> set [''SHELTER'']. contains_ci (content r) k) (mockReports 0)"
     "totalFound res = length (reports res)"
    by auto
  have "map report_id (reports res) = [''mock_2'']"
    unfolding r(2) sel by (simp add: mockReports_def)
  moreover have "totalFound res = 1"
    unfolding r(3) r(2) sel by simp
  ultimately show "\<exists>res. fst (fetchMockReports 0 [''SHELTER''] None) = Inr res
         \<and> map report_id (reports res) = [''mock_2''] \<and> totalFound res = 1"
    using r(1) by simp
qed

section \<open>Verification status\<close>

text \<open>
  C7. For every AI result the derived status is \<open>verified\<close> exactly when the image is
  authentic with confidence at least 80, \<open>rejected\<close> exactly when it is not authentic or
  the confidence is below 50, and \<open>pending\<close> exactly in the remaining cases (authentic
  with confidence from 50 up to, not including, 80); the status is always one of the
  three, and the batch route derives the same status.
\<close>

theorem verification_status_thresholds:
  "(verificationStatus v = ''verified'' \<longleftrightarrow> isAuthentic v \<and> confidence v \<ge> 80)
   \<and> (verificationStatus v = ''rejected'' \<longleftrightarrow> \<not> isAuthentic v \<or> confidence v < 50)
   \<and> (verificationStatus v = ''pending'' \<longleftrightarrow> isAuthentic v \<and> 50 \<le> confidence v \<and> confidence v < 80)
   \<and> verificationStatus v \<in> {''verified'', ''rejected'', ''pending''}
   \<and> batch_verificationStatus v = verificationStatus v"
  by (auto simp: verificationStatus_def batch_verificationStatus_def Let_def)

theorem verification_status_thresholds_witness:
  "verificationStatus \<lparr>isAuthentic = True, confidence = 80\<rparr> = ''verified''
   \<and> verificationStatus \<lparr>isAuthentic = True, confidence = 79.5\<rparr> = ''pending''
   \<and> verificationStatus \<lparr>isAuthentic = True, confidence = 50\<rparr> = ''pending''
   \<and> verificationStatus \<lparr>isAuthentic = True, confidence = 49\<rparr> = ''rejected''
   \<and> verificationStatus \<lparr>isAuthentic = False, confidence = 95\<rparr> = ''rejected''"
  using verification_status_thresholds[of "\<lparr>isAuthentic = True, confidence = 80\<rparr>"]
        verification_status_thresholds[of "\<lparr>isAuthentic = True, confidence = 79.5\<rparr>"]
        verification_status_thresholds[of "\<lparr>isAuthentic = True, confidence = 50\<rparr>"]
        verification_status_thresholds[of "\<lparr>isAuthentic = True, confidence = 49\<rparr>"]
        verification_status_thresholds[of "\<lparr>isAuthentic = False, confidence = 95\<rparr>"]
  by simp

section \<open>The audit trail\<close>

lemma addAuditEntry_append:
  "addAuditEntry now (Some t) a u d
     = t @ [\<lparr>action = a, userId = u, timestamp = now, details = d\<rparr>]"
  by (simp add: addAuditEntry_def createAuditEntry_def)

lemma create_trail:
  assumes "create_disasterData now u body = Inr row"
  shows "audit_trail row = Some (addAuditEntry now (Some []) ''create'' u (TitleDetails (c_title body)))"
proof (cases "c_lat body")
  case None
  with assms show ?thesis by (auto simp: create_disasterData_def)
next
  case la: (Some la)
  show ?thesis
  proof (cases "c_lng body")
    case None
    with la assms show ?thesis by (auto simp: create_disasterData_def)
  next
    case lo: (Some lo)
    show ?thesis
    proof (cases "coordinatesToPoint la lo")
      case (Inl e)
      with la lo assms show ?thesis
        by (cases "truthy_number (Some la) \<and> truthy_number (Some lo)")
           (auto simp: create_disasterData_def)
    next
      case (Inr pt)
      with la lo assms show ?thesis
        by (cases "truthy_number (Some la) \<and> truthy_number (Some lo)")
           (auto simp: create_disasterData_def)
    qed
  qed
qed

lemma update_trail:
  assumes "update_disaster now u ubody existing = Inr row"
  shows "audit_trail row =
           Some (addAuditEntry now
                   (case audit_trail existing of None \<Rightarrow> Some [] | Some t \<Rightarrow> Some t)
                   ''update'' u (ChangesDetails (updateData_keys ubody)))"
proof (cases "u_lat ubody")
  case None
  with assms show ?thesis by (auto simp: update_disaster_def Let_def)
next
  case la: (Some la)
  show ?thesis
  proof (cases "u_lng ubody")
    case None
    with la assms show ?thesis by (auto simp: update_disaster_def Let_def)
  next
    case lo: (Some lo)
    show ?thesis
    proof (cases "coordinatesToPoint la lo")
      case (Inl e)
      with la lo assms show ?thesis by (simp add: update_disaster_def Let_def)
    next
      case (Inr pt)
      with la lo assms show ?thesis by (auto simp: update_disaster_def Let_def)
    qed
  qed
qed

text \<open>
  C9. The audit trail is append-only: for every prior trail \<open>t\<close>, \<open>addAuditEntry\<close>
  returns \<open>t\<close> with exactly one entry (action, user, time stamp, details) appended, the
  entries of \<open>t\<close> unchanged and in order; the row written by create carries the
  one-entry trail built from the empty trail; the row written by update carries the
  existing trail with one \<open>update\<close> entry appended.
\<close>

theorem audit_trail_append_only:
  "addAuditEntry now (Some t) a u d
     = t @ [\<lparr>action = a, userId = u, timestamp = now, details = d\<rparr>]
   \<and> length (addAuditEntry now (Some t) a u d) = length t + 1
   \<and> take (length t) (addAuditEntry now (Some t) a u d) = t
   \<and> (\<forall>row. create_disasterData now u body = Inr row \<longrightarrow>
         audit_trail row = Some [\<lparr>action = ''create'', userId = u, timestamp = now,
                                  details = TitleDetails (c_title body)\<rparr>])
   \<and> (\<forall>row. audit_trail existing = Some t' \<and> update_disaster now u ubody existing = Inr row \<longrightarrow>
         audit_trail row = Some (t' @ [\<lparr>action = ''update'', userId = u, timestamp = now,
                                        details = ChangesDetails (updateData_keys ubody)\<rparr>]))"
proof (intro conjI allI impI)
  show "addAuditEntry now (Some t) a u d
          = t @ [\<lparr>action = a, userId = u, timestamp = now, details = d\<rparr>]"
    by (rule addAuditEntry_append)
  show "length (addAuditEntry now (Some t) a u d) = length t + 1"
    by (simp add: addAuditEntry_append)
  show "take (length t) (addAuditEntry now (Some t) a u d) = t"
    by (simp add: addAuditEntry_append)
next
  fix row assume "create_disasterData now u body = Inr row"
  then show "audit_trail row = Some [\<lparr>action = ''create'', userId = u, timestamp = now,
                                       details = TitleDetails (c_title body)\<rparr>]"
    by (simp add: create_trail addAuditEntry_append)
next
  fix row assume h: "audit_trail existing = Some t' \<and> update_disaster now u ubody existing = Inr row"
  then have "update_disaster now u ubody existing = Inr row" by blast
  from update_trail[OF this] h
  show "audit_trail row = Some (t' @ [\<lparr>action = ''update'', userId = u, timestamp = now,
                                        details = ChangesDetails (updateData_keys ubody)\<rparr>])"
    by (simp add: addAuditEntry_append)
qed


theorem audit_trail_append_only_witness:
  "\<exists>row row'.
     create_disasterData 1000 ''netrunnerX''
       \<lparr>c_title = ''NYC Flood'', c_description = None, c_location_name = None,
        c_tags = Some [''flood'', ''urgent''], c_lat = Some 40.7831, c_lng = Some (-73.9712)\<rparr>
       = Inr row
     \<and> audit_trail row =
         Some [\<lparr>action = ''create'', userId = ''netrunnerX'', timestamp = 1000,
                details = TitleDetails ''NYC Flood''\<rparr>]
     \<and> update_disaster 2000 ''admin1''
         \<lparr>u_title = Some ''NYC Flood (Manhattan)'', u_description = None,
          u_location_name = None, u_tags = None, u_lat = None, u_lng = None\<rparr> row
       = Inr row'
     \<and> audit_trail row' =
         Some [\<lparr>action = ''create'', userId = ''netrunnerX'', timestamp = 1000,
                details = TitleDetails ''NYC Flood''\<rparr>,
               \<lparr>action = ''update'', userId = ''admin1'', timestamp = 2000,
                details = ChangesDetails [''title'']\<rparr>]"
proof -
  let ?body = "\<lparr>c_title = ''NYC Flood'', c_description = None, c_location_name = None,
        c_tags = Some [''flood'', ''urgent''], c_lat = Some 40.7831, c_lng = Some (-73.9712)\<rparr>"
  let ?ubody = "\<lparr>u_title = Some ''NYC Flood (Manhattan)'', u_description = None,
          u_location_name = None, u_tags = None, u_lat = None, u_lng = None\<rparr>"
  let ?e1 = "\<lparr>action = ''create'', userId = ''netrunnerX'', timestamp = 1000,
                details = TitleDetails ''NYC Flood''\<rparr>"
  obtain row where c: "create_disasterData 1000 ''netrunnerX'' ?body = Inr row"
    by (simp add: create_disasterData_def truthy_number_def coordinatesToPoint_def
          isValidCoordinates_def)
  from audit_trail_append_only[where now = 1000 and u = "''netrunnerX''" and body = ?body
        and t = "[]" and a = "''create''" and d = "TitleDetails ''NYC Flood''"
        and existing = row and t' = "[]" and ubody = ?ubody] c
  have t1: "audit_trail row = Some [?e1]" by simp
  obtain row' where up: "update_disaster 2000 ''admin1'' ?ubody row = Inr row'"
    by (simp add: update_disaster_def Let_def)
  from audit_trail_append_only[where now = 2000 and u = "''admin1''" and existing = row
        and t' = "[?e1]" and ubody = ?ubody and body = ?body
        and t = "[?e1]" and a = "''update''" and d = "ChangesDetails [''title'']"] t1 up
  have t2: "audit_trail row' = Some [?e1, \<lparr>action = ''update'', userId = ''admin1'',
               timestamp = 2000, details = ChangesDetails [''title'']\<rparr>]"
    by (simp add: updateData_keys_def)
  with c t1 up show ?thesis by blast
qed

section \<open>The cache\<close>

text \<open>
  C3. For every cache entry, a get on its key at a time strictly after the entry's
  \<open>expires_at\<close> returns a miss (\<open>null\<close>), however the store answers; and when the
  store processes the two requests of that read (the select and the delete), the entry is
  deleted from the table by that read and no other key is touched.
\<close>

theorem expired_get_is_miss:
  "(\<forall>c row. cache c key = Some row \<and> expires_at row < now \<longrightarrow>
      fst (getCachedData (Some c) now key) = Inr None)
   \<and> (\<forall>c row. cache c key = Some row \<and> expires_at row < now
         \<and> net c (sent c) = Reachable \<and> net c (Suc (sent c)) = Reachable \<longrightarrow>
      (\<exists>c'. snd (getCachedData (Some c) now key) = Some c'
            \<and> cache c' = (cache c)(key := None)))"
  by (auto simp: getCachedData_def cache_select_single_def cache_delete_eq_def Let_def
           split: option.splits reach.splits)

theorem expired_get_is_miss_witness:
  "fst (getCachedData
          (Some \<lparr>cache = [''geocode_abc'' \<mapsto> \<lparr>row_value = (7::nat), expires_at = 100\<rparr>],
                 net = (\<lambda>k. Reachable), sent = 0\<rparr>) 101 ''geocode_abc'') = Inr None
   \<and> (\<exists>c'. snd (getCachedData
          (Some \<lparr>cache = [''geocode_abc'' \<mapsto> \<lparr>row_value = (7::nat), expires_at = 100\<rparr>],
                 net = (\<lambda>k. Reachable), sent = 0\<rparr>) 101 ''geocode_abc'') = Some c'
          \<and> cache c' ''geocode_abc'' = None)"
proof -
  let ?c = "\<lparr>cache = [''geocode_abc'' \<mapsto> \<lparr>row_value = (7::nat), expires_at = 100\<rparr>],
             net = (\<lambda>k. Reachable), sent = 0\<rparr>"
  have h: "cache ?c ''geocode_abc'' = Some \<lparr>row_value = 7, expires_at = 100\<rparr>
           \<and> expires_at \<lparr>row_value = (7::nat), expires_at = 100\<rparr> < 101
           \<and> net ?c (sent ?c) = Reachable \<and> net ?c (Suc (sent ?c)) = Reachable"
    by simp
  from expired_get_is_miss[of "''geocode_abc''" 101] h
  have "fst (getCachedData (Some ?c) 101 ''geocode_abc'') = Inr None" by blast
  moreover from expired_get_is_miss[of "''geocode_abc''" 101] h
  obtain c' where "snd (getCachedData (Some ?c) 101 ''geocode_abc'') = Some c'"
     "cache c' = (cache ?c)(''geocode_abc'' := None)" by blast
  then have "\<exists>c'. snd (getCachedData (Some ?c) 101 ''geocode_abc'') = Some c'
          \<and> cache c' ''geocode_abc'' = None" by simp
  ultimately show ?thesis by blast
qed

text \<open>
  C8. With no client configured, or with a client none of whose requests the store
  processes (each is answered by an error reply or throws), \<open>getCachedData\<close> returns
  \<open>null\<close> for every key and \<open>setCachedData\<close> returns normally; neither raises and
  neither changes the table. The answer of the get is the answer an empty, reachable
  cache gives.
\<close>

theorem cache_degrades_to_miss:
  "getCachedData (None :: 'v supabase_client option) now key = (Inr None, None)
   \<and> setCachedData None now key (v :: 'v) ttlHours = (Inr (), None)
   \<and> (\<forall>c :: 'v supabase_client. (\<forall>k. net c k \<noteq> Reachable) \<longrightarrow>
         fst (getCachedData (Some c) now key) = Inr None
         \<and> (\<exists>c'. snd (getCachedData (Some c) now key) = Some c'
                \<and> cache c' = cache c \<and> net c' = net c)
         \<and> fst (setCachedData (Some c) now key v ttlHours) = Inr ()
         \<and> (\<exists>c'. snd (setCachedData (Some c) now key v ttlHours) = Some c'
                \<and> cache c' = cache c \<and> net c' = net c)
         \<and> fst (getCachedData (Some c) now key)
             = fst (getCachedData
                      (Some \<lparr>cache = Map.empty, net = (\<lambda>k. Reachable), sent = 0\<rparr>
                         :: 'v supabase_client option) now key))"
proof (intro conjI allI impI)
  show "getCachedData (None :: 'v supabase_client option) now key = (Inr None, None)"
    by (simp add: getCachedData_def)
  show "setCachedData None now key v ttlHours = (Inr (), None)" by (simp add: setCachedData_def)
next
  fix c :: "'v supabase_client" assume un: "\<forall>k. net c k \<noteq> Reachable"
  then have r: "net c (sent c) \<noteq> Reachable" by blast
  from r show "fst (getCachedData (Some c) now key) = Inr None"
    by (cases "net c (sent c)")
       (simp_all add: getCachedData_def cache_select_single_def Let_def)
  from r show "\<exists>c'. snd (getCachedData (Some c) now key) = Some c'
                \<and> cache c' = cache c \<and> net c' = net c"
    by (cases "net c (sent c)")
       (simp_all add: getCachedData_def cache_select_single_def Let_def)
  from r show "fst (setCachedData (Some c) now key v ttlHours) = Inr ()"
    by (cases "net c (sent c)")
       (simp_all add: setCachedData_def cache_upsert_def Let_def)
  from r show "\<exists>c'. snd (setCachedData (Some c) now key v ttlHours) = Some c'
                \<and> cache c' = cache c \<and> net c' = net c"
    by (cases "net c (sent c)")
       (simp_all add: setCachedData_def cache_upsert_def Let_def)
  from r show "fst (getCachedData (Some c) now key)
             = fst (getCachedData
                      (Some \<lparr>cache = Map.empty, net = (\<lambda>k. Reachable), sent = 0\<rparr>
                         :: 'v supabase_client option) now key)"
    by (cases "net c (sent c)")
       (simp_all add: getCachedData_def cache_select_single_def Let_def)
qed

theorem cache_degrades_to_miss_witness:
  "fst (getCachedData
          (Some \<lparr>cache = [''k'' \<mapsto> \<lparr>row_value = (7::nat), expires_at = 500\<rparr>],
                 net = (\<lambda>k. Throws), sent = 0\<rparr>) 101 ''k'') = Inr None
   \<and> fst (setCachedData
          (Some \<lparr>cache = [''k'' \<mapsto> \<lparr>row_value = (7::nat), expires_at = 500\<rparr>],
                 net = (\<lambda>k. ErrorReply), sent = 0\<rparr>) 101 ''k'' 8 24) = Inr ()
   \<and> (\<exists>c'. snd (setCachedData
          (Some \<lparr>cache = [''k'' \<mapsto> \<lparr>row_value = (7::nat), expires_at = 500\<rparr>],
                 net = (\<lambda>k. ErrorReply), sent = 0\<rparr>) 101 ''k'' 8 24) = Some c'
          \<and> cache c' ''k'' = Some \<lparr>row_value = 7, expires_at = 500\<rparr>)"
proof -
  let ?t = "\<lparr>cache = [''k'' \<mapsto> \<lparr>row_value = (7::nat), expires_at = 500\<rparr>],
             net = (\<lambda>k. Throws), sent = 0\<rparr>"
  let ?e = "\<lparr>cache = [''k'' \<mapsto> \<lparr>row_value = (7::nat), expires_at = 500\<rparr>],
             net = (\<lambda>k. ErrorReply), sent = 0\<rparr>"
  have ht: "\<forall>k. net ?t k \<noteq> Reachable" and he: "\<forall>k. net ?e k \<noteq> Reachable" by simp_all
  from cache_degrades_to_miss[of 101 "''k''" 8 24] ht
  have "fst (getCachedData (Some ?t) 101 ''k'') = Inr None" by blast
  moreover from cache_degrades_to_miss[of 101 "''k''" 8 24] he
  have "fst (setCachedData (Some ?e) 101 ''k'' 8 24) = Inr ()" by blast
  moreover from cache_degrades_to_miss[of 101 "''k''" 8 24] he
  obtain c' where "snd (setCachedData (Some ?e) 101 ''k'' 8 24) = Some c'"
    "cache c' = cache ?e" by blast
  then have "\<exists>c'. snd (setCachedData (Some ?e) 101 ''k'' 8 24) = Some c'
          \<and> cache c' ''k'' = Some \<lparr>row_value = 7, expires_at = 500\<rparr>" by simp
  ultimately show ?thesis by blast
qed

section \<open>Retry with backoff\<close>

lemma failed_attempt_message:
  assumes "fn k \<noteq> Inl JsUndefined" and "isl (fn k)"
  obtains msg where "fn k = Inl (JsError msg)"
proof (cases "fn k")
  case (Inl e)
  with assms(1) show ?thesis by (cases e) (auto intro: that)
next
  case (Inr v)
  with assms(2) show ?thesis by simp
qed

lemma retry_loop_success:
  assumes "i \<le> j" and "int j < m" and "fn j = Inr v"
    and "\<forall>k. i \<le> k \<and> k < j \<longrightarrow> isl (fn k)"
    and "\<forall>k. fn k \<noteq> Inl JsUndefined"
  shows "retry_loop fn m b i le
           = (Inr v, concat (map (\<lambda>a. [Invoke a, Wait (b * 2 ^ a)]) [i..<j]) @ [Invoke j])"
  using assms
proof (induction "j - i" arbitrary: i le)
  case 0
  then have "i = j" by simp
  with 0 show ?case by (subst retry_loop.simps) simp
next
  case (Suc d)
  then have lt: "i < j" by simp
  from Suc.prems have "fn i \<noteq> Inl JsUndefined" by blast
  moreover from lt Suc.prems have "isl (fn i)" by blast
  ultimately obtain msg where e: "fn i = Inl (JsError msg)" by (rule failed_attempt_message)
  from lt Suc.prems have im: "int i < m" and ne: "int i \<noteq> m - 1" by auto
  have rec: "retry_loop fn m b (Suc i) (JsError msg)
           = (Inr v, concat (map (\<lambda>a. [Invoke a, Wait (b * 2 ^ a)]) [Suc i..<j]) @ [Invoke j])"
  proof (rule Suc.hyps(1))
    show "d = j - Suc i" using Suc.hyps(2) by simp
    show "Suc i \<le> j" using lt by simp
    show "int j < m" by (rule Suc.prems(2))
    show "fn j = Inr v" by (rule Suc.prems(3))
    show "\<forall>k. Suc i \<le> k \<and> k < j \<longrightarrow> isl (fn k)" using Suc.prems(4) by auto
    show "\<forall>k. fn k \<noteq> Inl JsUndefined" by (rule Suc.prems(5))
  qed
  have upt: "[i..<j] = i # [Suc i..<j]" using lt by (simp add: upt_conv_Cons)
  show ?case
    by (subst retry_loop.simps) (simp add: e im ne rec upt js_message_def)
qed

lemma retry_loop_all_fail:
  assumes "int i < m" and "\<forall>k. i \<le> k \<and> int k < m \<longrightarrow> isl (fn k)"
    and "\<forall>k. fn k \<noteq> Inl JsUndefined"
  shows "retry_loop fn m b i le
           = (fn (nat m - 1),
              concat (map (\<lambda>a. [Invoke a, Wait (b * 2 ^ a)]) [i..<nat m - 1]) @ [Invoke (nat m - 1)])"
  using assms
proof (induction "nat m - 1 - i" arbitrary: i le)
  case 0
  then have i: "i = nat m - 1" and im: "int i = m - 1" by auto
  from 0 have "isl (fn i)" by blast
  then obtain e where e: "fn i = Inl e" by (cases "fn i") auto
  have "fn (nat m - 1) = Inl e" using e i by simp
  then show ?case using 0(2) im i by (subst retry_loop.simps) (simp add: e)
next
  case (Suc d)
  then have ne: "int i \<noteq> m - 1" and lt: "i < nat m - 1" by auto
  from Suc.prems have "fn i \<noteq> Inl JsUndefined" by blast
  moreover from Suc.prems have "isl (fn i)" by blast
  ultimately obtain msg where e: "fn i = Inl (JsError msg)" by (rule failed_attempt_message)
  have rec: "retry_loop fn m b (Suc i) (JsError msg)
           = (fn (nat m - 1),
              concat (map (\<lambda>a. [Invoke a, Wait (b * 2 ^ a)]) [Suc i..<nat m - 1])
                @ [Invoke (nat m - 1)])"
  proof (rule Suc.hyps(1))
    show "d = nat m - 1 - Suc i" using Suc.hyps(2) by simp
    show "int (Suc i) < m" using lt by auto
    show "\<forall>k. Suc i \<le> k \<and> int k < m \<longrightarrow> isl (fn k)" using Suc.prems(2) by auto
    show "\<forall>k. fn k \<noteq> Inl JsUndefined" by (rule Suc.prems(3))
  qed
  have upt: "[i..<nat m - Suc 0] = i # [Suc i..<nat m - Suc 0]"
    using lt by (simp add: upt_conv_Cons)
  show ?case
    using Suc.prems(1) by (subst retry_loop.simps) (simp add: e ne rec upt js_message_def)
qed

lemma retry_loop_none: "m \<le> int i \<Longrightarrow> retry_loop fn m b i le = (Inl le, [])"
  by (subst retry_loop.simps) simp

lemma invocations_append: "invocations (xs @ ys) = invocations xs @ invocations ys"
  by (induction xs rule: invocations.induct) auto

lemma delays_append: "delays (xs @ ys) = delays xs @ delays ys"
  by (induction xs rule: delays.induct) auto

lemma invocations_trace:
  "invocations (concat (map (\<lambda>a. [Invoke a, Wait (b * 2 ^ a)]) ns) @ [Invoke j]) = ns @ [j]"
  by (induction ns) (auto simp: invocations_append)

lemma delays_trace:
  "delays (concat (map (\<lambda>a. [Invoke a, Wait (b * 2 ^ a)]) ns) @ [Invoke j])
     = map (\<lambda>a. b * 2 ^ a) ns"
  by (induction ns) (auto simp: delays_append)


lemma upt_snoc_pred: "0 < n \<Longrightarrow> [0..<n - Suc 0] @ [n - Suc 0] = [0..<n]"
  by (cases n) simp_all

lemma retry_loop_undefined:
  assumes "fn i = Inl JsUndefined" and "int i < m - 1"
  shows "retry_loop fn m b i le
           = (Inl (JsError ''TypeError: Cannot read properties of undefined''), [Invoke i])"
  using assms by (subst retry_loop.simps) (simp add: js_message_def)

lemma retryWithBackoff_cases:
  assumes "\<forall>k. fn k \<noteq> Inl JsUndefined"
  shows "(m \<le> 0 \<and> retryWithBackoff fn m b = (Inl JsUndefined, []))
   \<or> (0 < m \<and> (\<forall>k. int k < m \<longrightarrow> isl (fn k))
        \<and> retryWithBackoff fn m b
            = (fn (nat m - 1),
               concat (map (\<lambda>a. [Invoke a, Wait (b * 2 ^ a)]) [0..<nat m - 1])
                 @ [Invoke (nat m - 1)]))
   \<or> (\<exists>j v. int j < m \<and> fn j = Inr v \<and> (\<forall>k<j. isl (fn k))
        \<and> retryWithBackoff fn m b
            = (Inr v, concat (map (\<lambda>a. [Invoke a, Wait (b * 2 ^ a)]) [0..<j]) @ [Invoke j]))"
proof (cases "m \<le> 0")
  case True
  then show ?thesis by (simp add: retryWithBackoff_def retry_loop_none)
next
  case pos: False
  show ?thesis
  proof (cases "\<forall>k. int k < m \<longrightarrow> isl (fn k)")
    case True
    with pos have "retryWithBackoff fn m b
            = (fn (nat m - 1),
               concat (map (\<lambda>a. [Invoke a, Wait (b * 2 ^ a)]) [0..<nat m - 1])
                 @ [Invoke (nat m - 1)])"
      unfolding retryWithBackoff_def using assms by (intro retry_loop_all_fail) auto
    with pos True show ?thesis by auto
  next
    case False
    then have "\<exists>j. int j < m \<and> \<not> isl (fn j)" by blast
    then obtain j where j: "int j < m \<and> \<not> isl (fn j)"
      and least: "\<forall>k<j. \<not> (int k < m \<and> \<not> isl (fn k))"
      using exists_least_iff[of "\<lambda>j. int j < m \<and> \<not> isl (fn j)"] by blast
    from j obtain v where v: "fn j = Inr v" by (cases "fn j") auto
    have before: "\<forall>k<j. isl (fn k)"
    proof (intro allI impI)
      fix k assume "k < j"
      with j have "int k < m" by simp
      with least \<open>k < j\<close> show "isl (fn k)" by blast
    qed
    have "retryWithBackoff fn m b
            = (Inr v, concat (map (\<lambda>a. [Invoke a, Wait (b * 2 ^ a)]) [0..<j]) @ [Invoke j])"
      unfolding retryWithBackoff_def using j v before assms
      by (intro retry_loop_success) auto
    with j v before show ?thesis by blast
  qed
qed

text \<open>
  The contract of \<open>retryWithBackoff\<close> for an operation whose failures are \<open>Error\<close>
  objects: it invokes the operation at most \<open>maxRetries\<close> times, the invocations being
  the attempts 0, 1, 2, ... in order; after the failed attempt \<open>i\<close>, when another
  attempt follows, it waits \<open>baseDelay * 2^i\<close>, and it waits nowhere else; it returns
  the result of the first attempt that succeeds, making no further attempt; when all
  \<open>maxRetries\<close> attempts fail it raises the error thrown by the last attempt; it raises
  exactly when every attempt fails. (With \<open>maxRetries \<le> 0\<close> there is no attempt, and
  the unassigned \<open>lastError\<close> is raised.)
\<close>

theorem retryWithBackoff_contract:
  assumes "\<forall>k. fn k \<noteq> Inl JsUndefined"
  shows "length (invocations (snd (retryWithBackoff fn m b))) \<le> nat m
   \<and> invocations (snd (retryWithBackoff fn m b))
       = [0..<length (invocations (snd (retryWithBackoff fn m b)))]
   \<and> delays (snd (retryWithBackoff fn m b))
       = map (\<lambda>i. b * 2 ^ i) [0..<length (invocations (snd (retryWithBackoff fn m b))) - 1]
   \<and> (\<forall>j v. int j < m \<and> fn j = Inr v \<and> (\<forall>k<j. isl (fn k)) \<longrightarrow>
         retryWithBackoff fn m b
           = (Inr v, concat (map (\<lambda>i. [Invoke i, Wait (b * 2 ^ i)]) [0..<j]) @ [Invoke j]))
   \<and> (0 < m \<and> (\<forall>k. int k < m \<longrightarrow> isl (fn k)) \<longrightarrow>
         retryWithBackoff fn m b
           = (fn (nat m - 1),
              concat (map (\<lambda>i. [Invoke i, Wait (b * 2 ^ i)]) [0..<nat m - 1])
                @ [Invoke (nat m - 1)]))
   \<and> (m \<le> 0 \<longrightarrow> retryWithBackoff fn m b = (Inl JsUndefined, []))
   \<and> (isl (fst (retryWithBackoff fn m b)) \<longleftrightarrow> (\<forall>k. int k < m \<longrightarrow> isl (fn k)))"
proof -
  let ?R = "retryWithBackoff fn m b"
  let ?tr = "\<lambda>j. concat (map (\<lambda>i. [Invoke i, Wait (b * 2 ^ i)]) [0..<j]) @ [Invoke j]"
  note cs = retryWithBackoff_cases[OF assms, of m b]
  have c1: "length (invocations (snd ?R)) \<le> nat m"
    using cs by (auto simp: invocations_trace)
  have c2: "invocations (snd ?R) = [0..<length (invocations (snd ?R))]"
    using cs by (auto simp: invocations_trace upt_snoc_pred)
  have c3: "delays (snd ?R) = map (\<lambda>i. b * 2 ^ i) [0..<length (invocations (snd ?R)) - 1]"
    using cs by (auto simp: invocations_trace delays_trace)
  have c4: "?R = (Inr v, ?tr j)"
    if "int j < m \<and> fn j = Inr v \<and> (\<forall>k<j. isl (fn k))" for j v
    unfolding retryWithBackoff_def using that assms by (intro retry_loop_success) auto
  have c5: "?R = (fn (nat m - 1), ?tr (nat m - 1))"
    if "0 < m \<and> (\<forall>k. int k < m \<longrightarrow> isl (fn k))"
    unfolding retryWithBackoff_def using that assms by (intro retry_loop_all_fail) auto
  have c6: "?R = (Inl JsUndefined, [])" if "m \<le> 0"
    using that by (simp add: retryWithBackoff_def retry_loop_none)
  have c7: "isl (fst ?R) \<longleftrightarrow> (\<forall>k. int k < m \<longrightarrow> isl (fn k))"
  proof
    assume r: "isl (fst ?R)"
    show "\<forall>k. int k < m \<longrightarrow> isl (fn k)"
    proof (rule ccontr)
      assume "\<not> (\<forall>k. int k < m \<longrightarrow> isl (fn k))"
      with cs obtain j v where "?R = (Inr v, ?tr j)" by auto
      with r show False by simp
    qed
  next
    assume all: "\<forall>k. int k < m \<longrightarrow> isl (fn k)"
    show "isl (fst ?R)"
    proof (cases "m \<le> 0")
      case True
      with c6 show ?thesis by simp
    next
      case False
      then have "int (nat m - 1) < m" by auto
      with all have "isl (fn (nat m - 1))" by blast
      moreover from False all have "?R = (fn (nat m - 1), ?tr (nat m - 1))" by (intro c5) auto
      ultimately show ?thesis by simp
    qed
  qed
  from c1 c2 c3 c4 c5 c6 c7 show ?thesis by blast
qed

theorem retryWithBackoff_contract_witness:
  "retryWithBackoff (\<lambda>k. if k < 2 then Inl (JsError ''timeout'') else Inr (42::nat)) 3 1000
     = (Inr 42, [Invoke 0, Wait 1000, Invoke 1, Wait 2000, Invoke 2])
   \<and> retryWithBackoff (\<lambda>k. Inl (JsError (if k = 2 then ''last'' else ''early''))) 3 1000
     = (Inl (JsError ''last'') :: thrown + nat, [Invoke 0, Wait 1000, Invoke 1, Wait 2000, Invoke 2])
   \<and> retryWithBackoff (\<lambda>k. Inr (7::nat)) 0 1000 = (Inl JsUndefined, [])"
proof -
  let ?f = "\<lambda>k::nat. if k < 2 then Inl (JsError ''timeout'') else Inr (42::nat)"
  let ?g = "\<lambda>k::nat. Inl (JsError (if k = 2 then ''last'' else ''early'')) :: thrown + nat"
  let ?h = "\<lambda>k::nat. Inr (7::nat) :: thrown + nat"
  have u2: "[0..<2] = [0, Suc 0]" by (simp add: upt_rec)
  have hf: "int 2 < 3 \<and> ?f 2 = Inr 42 \<and> (\<forall>k<2. isl (?f k))" by simp
  have hg: "(0::int) < 3 \<and> (\<forall>k. int k < 3 \<longrightarrow> isl (?g k))" by simp
  have hh: "(0::int) \<le> 0" by simp
  have nf: "\<forall>k. ?f k \<noteq> Inl JsUndefined" and ng: "\<forall>k. ?g k \<noteq> Inl JsUndefined"
    and nh: "\<forall>k. ?h k \<noteq> Inl JsUndefined" by simp_all
  from retryWithBackoff_contract[OF nf, of 3 1000] hf
  have "retryWithBackoff ?f 3 1000
          = (Inr 42, concat (map (\<lambda>i. [Invoke i, Wait (1000 * 2 ^ i)]) [0..<2]) @ [Invoke 2])"
    by blast
  then have a: "retryWithBackoff ?f 3 1000
          = (Inr 42, [Invoke 0, Wait 1000, Invoke 1, Wait 2000, Invoke 2])"
    by (simp add: u2)
  from retryWithBackoff_contract[OF ng, of 3 1000] hg
  have "retryWithBackoff ?g 3 1000
          = (?g (nat 3 - 1),
             concat (map (\<lambda>i. [Invoke i, Wait (1000 * 2 ^ i)]) [0..<nat 3 - 1]) @ [Invoke (nat 3 - 1)])"
    by blast
  then have b: "retryWithBackoff ?g 3 1000
          = (Inl (JsError ''last''), [Invoke 0, Wait 1000, Invoke 1, Wait 2000, Invoke 2])"
    by (simp add: u2)
  from retryWithBackoff_contract[OF nh, of 0 1000] hh
  have c: "retryWithBackoff ?h 0 1000 = (Inl JsUndefined, [])" by blast
  from a b c show ?thesis by blast
qed

text \<open>
  C4. The contract says that a failed attempt is followed, after the delay, by the next
  attempt, that the first successful result is returned, and that an error is raised
  only when every attempt fails. The program misses this for an operation that rejects
  with \<open>undefined\<close>: the \<open>catch\<close> block reads \<open>error.message\<close> for its log line
  before the delay, that read throws, and \<open>retryWithBackoff\<close> raises a \<open>TypeError\<close>
  after one invocation, without waiting and without the second attempt, which would
  have succeeded.
\<close>

theorem retryWithBackoff_undefined_rejection:
  "rejects_once 0 = Inl JsUndefined
   \<and> rejects_once 1 = Inr 1
   \<and> retryWithBackoff rejects_once 3 1000
       = (Inl (JsError ''TypeError: Cannot read properties of undefined''), [Invoke 0])"
proof -
  have "retry_loop rejects_once 3 1000 0 JsUndefined
          = (Inl (JsError ''TypeError: Cannot read properties of undefined''), [Invoke 0])"
    by (rule retry_loop_undefined) (simp_all add: rejects_once_def)
  then show ?thesis by (simp add: retryWithBackoff_def rejects_once_def)
qed

section \<open>The aggregation pipelines\<close>

lemma getCachedData_returns: "\<exists>r. fst (getCachedData sb now key) = Inr r"
  by (auto simp: getCachedData_def cache_select_single_def cache_delete_eq_def Let_def
           split: option.splits reach.splits)

lemma setCachedData_returns: "fst (setCachedData sb now key v ttl) = Inr ()"
  by (auto simp: setCachedData_def cache_upsert_def Let_def split: option.splits reach.splits)

lemma retry_default_all_fail:
  "\<forall>k. isl (fn k) \<Longrightarrow> \<forall>k. fn k \<noteq> Inl JsUndefined \<Longrightarrow> retryWithBackoff_default fn = fn 2"
  by (simp add: retryWithBackoff_default_def retryWithBackoff_def retry_loop_all_fail)

lemma retry_default_first: "fn 0 = Inr v \<Longrightarrow> retryWithBackoff_default fn = Inr v"
  by (simp add: retryWithBackoff_default_def retryWithBackoff_def)
     (subst retry_loop.simps, simp)

lemma js_message_Error: "js_message (JsError m) = Inr m"
  by (simp add: js_message_def)

lemma fst_client_catch:
  "fst (client_catch svc op error)
     = Inl (case error of
              JsUndefined \<Rightarrow> JsError ''TypeError: Cannot read properties of undefined''
            | JsError m \<Rightarrow> JsError m)"
  by (cases error) (simp_all add: client_catch_def js_message_def)

lemma geocodeMock_source:
  "\<exists>r. fst (geocodeMock r1 r2 locationName) = Inr r \<and> source r = ''mock''"
  by (simp add: geocodeMock_def Let_def)

lemma geocode_switch_error:
  assumes "fst (geocode_switch s w) = Inl error"
  shows "\<exists>m. error = JsError m"
proof (cases s)
  case Google
  with assms show ?thesis
    by (auto simp: geocode_switch_def geocodeWithGoogle_def Let_def fst_client_catch
             split: sum.splits if_splits thrown.splits)
next
  case Mapbox
  with assms show ?thesis
    by (auto simp: geocode_switch_def geocodeWithMapbox_def fst_client_catch
             split: sum.splits option.splits list.splits thrown.splits)
next
  case Nominatim
  with assms show ?thesis
    by (auto simp: geocode_switch_def geocodeWithNominatim_def fst_client_catch
             split: sum.splits option.splits list.splits thrown.splits)
qed

lemma geocode_catch_Error:
  "fst (geocode_catch s r1 r2 locationName (JsError m)) = fst (geocodeMock r1 r2 locationName)"
  by (simp add: geocode_catch_def js_message_Error geocodeMock_def Let_def)

lemma geocode_on_miss:
  assumes "fst (getCachedData supabase now (geocode_cacheKey b64 locationName)) = Inr None"
  shows "fst (geocode env b64 w r1 r2 now supabase locationName)
           = (case fst (geocode_switch (GeocodingService_service env) w) of
                Inr result \<Rightarrow> Inr result
              | Inl error \<Rightarrow> fst (geocodeMock r1 r2 locationName))"
proof -
  obtain sb1 where g: "getCachedData supabase now (geocode_cacheKey b64 locationName) = (Inr None, sb1)"
    using assms by (cases "getCachedData supabase now (geocode_cacheKey b64 locationName)") simp
  obtain pr lg1 where sw: "geocode_switch (GeocodingService_service env) w = (pr, lg1)"
    by (cases "geocode_switch (GeocodingService_service env) w")
  show ?thesis
  proof (cases pr)
    case (Inl error)
    with sw have "fst (geocode_switch (GeocodingService_service env) w) = Inl error" by simp
    then obtain m where m: "error = JsError m" using geocode_switch_error by blast
    obtain r lg where c: "geocode_catch (GeocodingService_service env) r1 r2 locationName (JsError m)
                            = (r, lg)"
      by (cases "geocode_catch (GeocodingService_service env) r1 r2 locationName (JsError m)")
    with geocode_catch_Error[of "GeocodingService_service env" r1 r2 locationName m]
    have "r = fst (geocodeMock r1 r2 locationName)" by simp
    with g sw Inl m c show ?thesis
      by (simp add: geocode_def Let_def)
  next
    case (Inr result)
    obtain sb2 where st: "setCachedData sb1 now (geocode_cacheKey b64 locationName) result 24 = (Inr (), sb2)"
      using setCachedData_returns[of sb1 now "geocode_cacheKey b64 locationName" result 24]
      by (cases "setCachedData sb1 now (geocode_cacheKey b64 locationName) result 24") simp
    from g sw Inr st show ?thesis
      by (simp add: geocode_def Let_def)
  qed
qed

lemma geocode_on_hit:
  assumes "fst (getCachedData supabase now (geocode_cacheKey b64 locationName)) = Inr (Some cached)"
  shows "fst (geocode env b64 w r1 r2 now supabase locationName) = Inr cached"
proof -
  obtain sb1 where g: "getCachedData supabase now (geocode_cacheKey b64 locationName) = (Inr (Some cached), sb1)"
    using assms by (cases "getCachedData supabase now (geocode_cacheKey b64 locationName)") simp
  then show ?thesis by (simp add: geocode_def Let_def)
qed

lemma geocode_switch_source:
  assumes "fst (geocode_switch s w) = Inr result"
  shows "source result = service_name s"
proof (cases s)
  case Google
  with assms show ?thesis
    by (auto simp: geocode_switch_def geocodeWithGoogle_def service_name_def Let_def
             fst_client_catch split: sum.splits if_splits)
next
  case Mapbox
  with assms show ?thesis
    by (auto simp: geocode_switch_def geocodeWithMapbox_def service_name_def
             fst_client_catch split: sum.splits option.splits list.splits)
next
  case Nominatim
  with assms show ?thesis
    by (auto simp: geocode_switch_def geocodeWithNominatim_def service_name_def
             fst_client_catch split: sum.splits option.splits list.splits)
qed

lemma geocode_switch_only_own_endpoint:
  assumes "case s of Google \<Rightarrow> google_http w' = google_http w
                   | Mapbox \<Rightarrow> mapbox_http w' = mapbox_http w
                   | Nominatim \<Rightarrow> nominatim_http w' = nominatim_http w"
  shows "geocode_switch s w' = geocode_switch s w"
  using assms
  by (cases s)
     (simp_all add: geocode_switch_def geocodeWithGoogle_def geocodeWithMapbox_def
        geocodeWithNominatim_def)

lemma geocode_only_own_endpoint:
  assumes "geocode_switch (GeocodingService_service env) w'
             = geocode_switch (GeocodingService_service env) w"
  shows "geocode env b64 w' r1 r2 now supabase locationName
           = geocode env b64 w r1 r2 now supabase locationName"
  unfolding geocode_def Let_def assms by (rule refl)


lemma fetchMockReports_source:
  "\<exists>r. fst (fetchMockReports now keywords did) = Inr r \<and> reports_source r = ''mock''"
  by (simp add: fetchMockReports_def Let_def)

lemma fetchReports_switch_error:
  assumes "fst (fetchReports_switch s w now kws) = Inl error"
  shows "\<exists>m. error = JsError m"
proof (cases s)
  case Twitter
  with assms show ?thesis
    by (auto simp: fetchReports_switch_def fetchFromTwitter_def fst_client_catch
             split: sum.splits option.splits thrown.splits)
next
  case Bluesky
  with assms show ?thesis
    by (auto simp: fetchReports_switch_def fetchFromBluesky_def fst_client_catch
             split: sum.splits option.splits thrown.splits)
next
  case MockService
  with assms show ?thesis
    by (simp add: fetchReports_switch_def fetchMockReports_def Let_def)
qed

lemma fetchReports_catch_Error:
  "fst (fetchReports_catch s now kws did (JsError m)) = fst (fetchMockReports now kws (Some did))"
  by (simp add: fetchReports_catch_def js_message_Error fetchMockReports_def Let_def)

lemma fetchReports_on_miss:
  assumes "fst (getCachedData supabase now (fetchReports_cacheKey did keywords)) = Inr None"
  shows "fst (fetchReports env locs w now supabase did keywords)
           = (case fst (fetchReports_switch (SocialMediaService_service env) w now keywords) of
                Inr result \<Rightarrow>
                  Inr (result\<lparr>reports := processReports locs now (reports result) did,
                              disasterId := Some did, fetchedAt := Some now\<rparr>)
              | Inl error \<Rightarrow> fst (fetchMockReports now keywords (Some did)))"
proof -
  let ?key = "fetchReports_cacheKey did keywords"
  let ?svc = "SocialMediaService_service env"
  obtain sb1 where g: "getCachedData supabase now ?key = (Inr None, sb1)"
    using assms by (cases "getCachedData supabase now ?key") simp
  obtain pr lg1 where sw: "fetchReports_switch ?svc w now keywords = (pr, lg1)"
    by (cases "fetchReports_switch ?svc w now keywords")
  show ?thesis
  proof (cases pr)
    case (Inl error)
    with sw have "fst (fetchReports_switch ?svc w now keywords) = Inl error" by simp
    then obtain m where m: "error = JsError m" using fetchReports_switch_error by blast
    obtain r lg where c: "fetchReports_catch ?svc now keywords did (JsError m) = (r, lg)"
      by (cases "fetchReports_catch ?svc now keywords did (JsError m)")
    with fetchReports_catch_Error[of ?svc now "keywords" did m]
    have "r = fst (fetchMockReports now keywords (Some did))" by simp
    with g sw Inl m c show ?thesis
      by (simp add: fetchReports_def Let_def)
  next
    case (Inr result)
    let ?final = "result\<lparr>reports := processReports locs now (reports result) did,
                          disasterId := Some did, fetchedAt := Some now\<rparr>"
    obtain sb2 where st: "setCachedData sb1 now ?key ?final 0.17 = (Inr (), sb2)"
      using setCachedData_returns[of sb1 now ?key ?final "0.17"]
      by (cases "setCachedData sb1 now ?key ?final 0.17") simp
    from g sw Inr st show ?thesis
      by (simp add: fetchReports_def Let_def)
  qed
qed

lemma fetchReports_on_hit:
  assumes "fst (getCachedData supabase now (fetchReports_cacheKey did keywords)) = Inr (Some cached)"
  shows "fst (fetchReports env locs w now supabase did keywords) = Inr cached"
proof -
  obtain sb1 where "getCachedData supabase now (fetchReports_cacheKey did keywords)
                      = (Inr (Some cached), sb1)"
    using assms by (cases "getCachedData supabase now (fetchReports_cacheKey did keywords)") simp
  then show ?thesis by (simp add: fetchReports_def Let_def)
qed

lemma geocode_returns: "\<exists>r. fst (geocode env b64 w r1 r2 now supabase locationName) = Inr r"
proof -
  obtain c where c: "fst (getCachedData supabase now (geocode_cacheKey b64 locationName)) = Inr c"
    using getCachedData_returns by blast
  show ?thesis
  proof (cases c)
    case None
    with c geocode_on_miss[of supabase now b64 locationName env w r1 r2]
      geocodeMock_source[of r1 r2 locationName]
    show ?thesis by (auto split: sum.splits)
  next
    case (Some cached)
    with c geocode_on_hit[of supabase now b64 locationName cached env w r1 r2]
    show ?thesis by simp
  qed
qed

lemma fetchReports_returns:
  "\<exists>r. fst (fetchReports env locs w now supabase did keywords) = Inr r"
proof -
  obtain c where c: "fst (getCachedData supabase now (fetchReports_cacheKey did keywords)) = Inr c"
    using getCachedData_returns by blast
  show ?thesis
  proof (cases c)
    case None
    with c fetchReports_on_miss[of supabase now did "keywords" env locs w]
      fetchMockReports_source[of now "keywords" "Some did"]
    show ?thesis by (auto split: sum.splits)
  next
    case (Some cached)
    with c fetchReports_on_hit[of supabase now did "keywords" cached env locs w]
    show ?thesis by simp
  qed
qed

lemma fetchFromSource_error:
  assumes "fst (fetchFromSource name http) = Inl error"
  shows "\<exists>m. error = JsError m"
  using assms
  by (auto simp: fetchFromSource_def fst_client_catch split: sum.splits thrown.splits)

lemma fetch_sources_returns: "\<exists>found. fst (fetch_sources srcs allUpdates) = Inr found"
proof (induction srcs arbitrary: allUpdates)
  case Nil
  show ?case by simp
next
  case (Cons src rest)
  obtain name http where src: "src = (name, http)" by (cases src)
  obtain r lg where f: "fetchFromSource name http = (r, lg)" by (cases "fetchFromSource name http")
  show ?case
  proof (cases r)
    case (Inl error)
    with f obtain m where "error = JsError m" using fetchFromSource_error[of name http error] by auto
    with Cons.IH[of allUpdates] src f Inl show ?thesis
      by (auto simp: js_message_Error split: prod.splits)
  next
    case (Inr found)
    with Cons.IH[of "allUpdates @ found"] src f show ?thesis
      by (auto simp: push_spread_def split: prod.splits)
  qed
qed

lemma fetchMockUpdates_canned:
  "\<exists>r. fst (fetchMockUpdates now keywords did) = Inr r
       \<and> set (updates r) \<subseteq> set (mockUpdates now) \<and> ou_disasterId r = did"
  by (simp add: fetchMockUpdates_def Let_def)

lemma fetchUpdates_catch_Error:
  "fst (fetchUpdates_catch now kws did (JsError m)) = fst (fetchMockUpdates now kws (Some did))"
  by (simp add: fetchUpdates_catch_def js_message_Error fetchMockUpdates_def Let_def)

lemma fetchUpdates_on_miss:
  assumes "fst (getCachedData supabase now (fetchUpdates_cacheKey did keywords)) = Inr None"
  shows "fst (fetchUpdates w now supabase did keywords)
           = fst (fetchMockUpdates now keywords (Some did))"
proof -
  let ?key = "fetchUpdates_cacheKey did keywords"
  let ?te = "''TypeError: Spread syntax requires an iterable''"
  obtain sb1 where g: "getCachedData supabase now ?key = (Inr None, sb1)"
    using assms by (cases "getCachedData supabase now ?key") simp
  obtain found lg1 where fs: "fetch_sources (this_sources w) [] = (Inr found, lg1)"
    using fetch_sources_returns[of "this_sources w" "[]"]
    by (cases "fetch_sources (this_sources w) []") auto
  obtain mock lg2 where fm: "fetchMockUpdates now keywords None = (Inr mock, lg2)"
    by (simp add: fetchMockUpdates_def Let_def)
  obtain r lg where c: "fetchUpdates_catch now keywords did (JsError ?te) = (r, lg)"
    by (cases "fetchUpdates_catch now keywords did (JsError ?te)")
  with fetchUpdates_catch_Error[of now "keywords" did ?te]
  have "r = fst (fetchMockUpdates now keywords (Some did))" by simp
  with g fs fm c show ?thesis
    by (simp add: fetchUpdates_def Let_def push_spread_def)
qed

lemma fetchUpdates_on_hit:
  assumes "fst (getCachedData supabase now (fetchUpdates_cacheKey did keywords)) = Inr (Some cached)"
  shows "fst (fetchUpdates w now supabase did keywords) = Inr cached"
proof -
  obtain sb1 where "getCachedData supabase now (fetchUpdates_cacheKey did keywords)
                      = (Inr (Some cached), sb1)"
    using assms by (cases "getCachedData supabase now (fetchUpdates_cacheKey did keywords)") simp
  then show ?thesis by (simp add: fetchUpdates_def Let_def)
qed

lemma fetchUpdates_returns: "\<exists>r. fst (fetchUpdates w now supabase did keywords) = Inr r"
proof -
  obtain c where c: "fst (getCachedData supabase now (fetchUpdates_cacheKey did keywords)) = Inr c"
    using getCachedData_returns by blast
  show ?thesis
  proof (cases c)
    case None
    with c fetchUpdates_on_miss[of supabase now did "keywords" w]
      fetchMockUpdates_canned[of now "keywords" "Some did"]
    show ?thesis by auto
  next
    case (Some cached)
    with c fetchUpdates_on_hit[of supabase now did "keywords" cached w]
    show ?thesis by simp
  qed
qed

subsection \<open>Geocoding: which provider answers\<close>

lemma google_down_google:
  "geocodeWithGoogle google_down_world
     = (Inl (JsError ''timeout of 10000ms exceeded''),
        [\<lparr>service = ''Google Maps'', operation = ''geocode'', success = False\<rparr>])"
  by (simp add: geocodeWithGoogle_def google_down_world_def retry_default_all_fail
        client_catch_def js_message_def)

lemma google_down_mapbox:
  "geocodeWithMapbox google_down_world
     = (Inr \<lparr>lat = Some 25.77, lng = Some (-80.19),
             formattedAddress = ''Miami, Florida, United States'',
             components = miami_components, accuracy = Label ''unknown'',
             source = ''mapbox''\<rparr>,
        [\<lparr>service = ''Mapbox'', operation = ''geocode'', success = True\<rparr>])"
  by (simp add: geocodeWithMapbox_def google_down_world_def retry_default_first)

lemma miami_mock:
  "fst (geocodeMock r1 r2 ''Miami, FL'')
     = Inr \<lparr>lat = Some 25.7617, lng = Some (-80.1918), formattedAddress = ''Miami, FL'',
            components = miami_components, accuracy = Label ''approximate'',
            source = ''mock''\<rparr>"
  by (simp add: geocodeMock_def Let_def mock_coords_def mockLocations_def
        toLowerCase_char_def js_trim_def white_space_def miami_components_def)

text \<open>
  C1, as the spec words it, fails: with both keys configured and Google failing, Mapbox,
  the next provider in the priority order, would return a result, yet it is not
  consulted and the answer is the mock result.
\<close>

theorem geocode_chain_counterexample:
  "fst (geocodeWithGoogle google_down_world) = Inl (JsError ''timeout of 10000ms exceeded'')
   \<and> fst (geocodeWithMapbox google_down_world)
       = Inr \<lparr>lat = Some 25.77, lng = Some (-80.19),
              formattedAddress = ''Miami, Florida, United States'',
              components = miami_components, accuracy = Label ''unknown'',
              source = ''mapbox''\<rparr>
   \<and> spec_geocode_chain google_down_world 0.5 0.5 ''Miami, FL''
       = Inr \<lparr>lat = Some 25.77, lng = Some (-80.19),
              formattedAddress = ''Miami, Florida, United States'',
              components = miami_components, accuracy = Label ''unknown'',
              source = ''mapbox''\<rparr>
   \<and> fst (geocode both_keys_env id google_down_world 0.5 0.5 0 None ''Miami, FL'')
       = Inr \<lparr>lat = Some 25.7617, lng = Some (-80.1918), formattedAddress = ''Miami, FL'',
              components = miami_components, accuracy = Label ''approximate'',
              source = ''mock''\<rparr>
   \<and> fst (geocode both_keys_env id google_down_world 0.5 0.5 0 None ''Miami, FL'')
       \<noteq> spec_geocode_chain google_down_world 0.5 0.5 ''Miami, FL''"
proof -
  have miss: "fst (getCachedData (None :: geocode_result supabase_client option) 0
                     (geocode_cacheKey id ''Miami, FL'')) = Inr None"
    by (simp add: getCachedData_def)
  have svc: "GeocodingService_service both_keys_env = Google"
    by (simp add: GeocodingService_service_def both_keys_env_def truthy_def)
  have code: "fst (geocode both_keys_env id google_down_world 0.5 0.5 0 None ''Miami, FL'')
       = Inr \<lparr>lat = Some 25.7617, lng = Some (-80.1918), formattedAddress = ''Miami, FL'',
              components = miami_components, accuracy = Label ''approximate'',
              source = ''mock''\<rparr>"
    unfolding geocode_on_miss[OF miss] svc
    by (simp add: geocode_switch_def google_down_google miami_mock)
  have spec: "spec_geocode_chain google_down_world 0.5 0.5 ''Miami, FL''
       = Inr \<lparr>lat = Some 25.77, lng = Some (-80.19),
              formattedAddress = ''Miami, Florida, United States'',
              components = miami_components, accuracy = Label ''unknown'',
              source = ''mapbox''\<rparr>"
    by (simp add: spec_geocode_chain_def google_down_google google_down_mapbox)
  have "fst (geocode both_keys_env id google_down_world 0.5 0.5 0 None ''Miami, FL'')
       \<noteq> spec_geocode_chain google_down_world 0.5 0.5 ''Miami, FL''"
    unfolding code spec by simp
  with code spec show ?thesis by (simp add: google_down_google google_down_mapbox)
qed

text \<open>
  C1, amended. The provider is fixed at construction: Google when a Google key is
  configured, otherwise Mapbox when a Mapbox token is configured, otherwise Nominatim.
  On a cache miss the result is that one provider's result when it returns one (tagged
  with that provider's name) and the mock result when it fails; the endpoints of the
  other providers have no influence on the outcome (they are not consulted), and the
  answer is one of these two results as it is, never a merge.
\<close>

theorem geocode_single_configured_provider:
  "(truthy (GOOGLE_MAPS_API_KEY env) \<longrightarrow> GeocodingService_service env = Google)
   \<and> (\<not> truthy (GOOGLE_MAPS_API_KEY env) \<and> truthy (MAPBOX_ACCESS_TOKEN env) \<longrightarrow>
        GeocodingService_service env = Mapbox)
   \<and> (\<not> truthy (GOOGLE_MAPS_API_KEY env) \<and> \<not> truthy (MAPBOX_ACCESS_TOKEN env) \<longrightarrow>
        GeocodingService_service env = Nominatim)
   \<and> (fst (getCachedData supabase now (geocode_cacheKey b64 locationName)) = Inr None \<longrightarrow>
        fst (geocode env b64 w r1 r2 now supabase locationName)
          = (case fst (geocode_switch (GeocodingService_service env) w) of
               Inr result \<Rightarrow> Inr result
             | Inl error \<Rightarrow> fst (geocodeMock r1 r2 locationName)))
   \<and> (\<forall>result. fst (geocode_switch (GeocodingService_service env) w) = Inr result \<longrightarrow>
        source result = service_name (GeocodingService_service env))
   \<and> (\<exists>r. fst (geocodeMock r1 r2 locationName) = Inr r \<and> source r = ''mock'')
   \<and> (\<forall>w'. (case GeocodingService_service env of
                Google \<Rightarrow> google_http w' = google_http w
              | Mapbox \<Rightarrow> mapbox_http w' = mapbox_http w
              | Nominatim \<Rightarrow> nominatim_http w' = nominatim_http w) \<longrightarrow>
          geocode env b64 w' r1 r2 now supabase locationName
            = geocode env b64 w r1 r2 now supabase locationName)"
proof (intro conjI allI impI)
  show "GeocodingService_service env = Google" if "truthy (GOOGLE_MAPS_API_KEY env)"
    using that by (simp add: GeocodingService_service_def)
  show "GeocodingService_service env = Mapbox"
    if "\<not> truthy (GOOGLE_MAPS_API_KEY env) \<and> truthy (MAPBOX_ACCESS_TOKEN env)"
    using that by (simp add: GeocodingService_service_def)
  show "GeocodingService_service env = Nominatim"
    if "\<not> truthy (GOOGLE_MAPS_API_KEY env) \<and> \<not> truthy (MAPBOX_ACCESS_TOKEN env)"
    using that by (simp add: GeocodingService_service_def)
  show "fst (geocode env b64 w r1 r2 now supabase locationName)
          = (case fst (geocode_switch (GeocodingService_service env) w) of
               Inr result \<Rightarrow> Inr result
             | Inl error \<Rightarrow> fst (geocodeMock r1 r2 locationName))"
    if "fst (getCachedData supabase now (geocode_cacheKey b64 locationName)) = Inr None"
    using that by (rule geocode_on_miss)
  show "source result = service_name (GeocodingService_service env)"
    if "fst (geocode_switch (GeocodingService_service env) w) = Inr result" for result
    using that by (rule geocode_switch_source)
  show "\<exists>r. fst (geocodeMock r1 r2 locationName) = Inr r \<and> source r = ''mock''"
    by (rule geocodeMock_source)
  show "geocode env b64 w' r1 r2 now supabase locationName
            = geocode env b64 w r1 r2 now supabase locationName"
    if "case GeocodingService_service env of
                Google \<Rightarrow> google_http w' = google_http w
              | Mapbox \<Rightarrow> mapbox_http w' = mapbox_http w
              | Nominatim \<Rightarrow> nominatim_http w' = nominatim_http w" for w'
    using that by (intro geocode_only_own_endpoint geocode_switch_only_own_endpoint)
qed

theorem geocode_single_configured_provider_witness:
  "fst (geocode \<lparr>GOOGLE_MAPS_API_KEY = None, MAPBOX_ACCESS_TOKEN = Some ''m-token''\<rparr>
          id google_down_world 0.5 0.5 0 None ''Miami, FL'')
     = Inr \<lparr>lat = Some 25.77, lng = Some (-80.19),
            formattedAddress = ''Miami, Florida, United States'',
            components = miami_components, accuracy = Label ''unknown'',
            source = ''mapbox''\<rparr>
   \<and> geocode both_keys_env id
         (google_down_world\<lparr>mapbox_http := (\<lambda>k. Inl (JsError ''down'')),
                             nominatim_http := (\<lambda>k. Inl (JsError ''down''))\<rparr>)
         0.5 0.5 0 None ''Miami, FL''
     = geocode both_keys_env id google_down_world 0.5 0.5 0 None ''Miami, FL''"
proof -
  let ?env = "\<lparr>GOOGLE_MAPS_API_KEY = None, MAPBOX_ACCESS_TOKEN = Some ''m-token''\<rparr>"
  let ?w' = "google_down_world\<lparr>mapbox_http := (\<lambda>k. Inl (JsError ''down'')),
                                nominatim_http := (\<lambda>k. Inl (JsError ''down''))\<rparr>"
  have miss: "fst (getCachedData (None :: geocode_result supabase_client option) 0
                     (geocode_cacheKey id ''Miami, FL'')) = Inr None"
    by (simp add: getCachedData_def)
  have tr: "\<not> truthy (GOOGLE_MAPS_API_KEY ?env) \<and> truthy (MAPBOX_ACCESS_TOKEN ?env)"
    by (simp add: truthy_def)
  note T = geocode_single_configured_provider[of ?env None 0 id "''Miami, FL''"
             google_down_world "0.5" "0.5"]
  from T tr have svc: "GeocodingService_service ?env = Mapbox" by blast
  from T miss have "fst (geocode ?env id google_down_world 0.5 0.5 0 None ''Miami, FL'')
          = (case fst (geocode_switch (GeocodingService_service ?env) google_down_world) of
               Inr result \<Rightarrow> Inr result
             | Inl error \<Rightarrow> fst (geocodeMock 0.5 0.5 ''Miami, FL''))" by blast
  then have a: "fst (geocode ?env id google_down_world 0.5 0.5 0 None ''Miami, FL'')
     = Inr \<lparr>lat = Some 25.77, lng = Some (-80.19),
            formattedAddress = ''Miami, Florida, United States'',
            components = miami_components, accuracy = Label ''unknown'',
            source = ''mapbox''\<rparr>"
    by (simp add: svc geocode_switch_def google_down_mapbox)
  note T2 = geocode_single_configured_provider[of both_keys_env None 0 id "''Miami, FL''"
             google_down_world "0.5" "0.5"]
  have tg: "truthy (GOOGLE_MAPS_API_KEY both_keys_env)"
    by (simp add: truthy_def both_keys_env_def)
  with T2 have svc2: "GeocodingService_service both_keys_env = Google" by blast
  have same: "case GeocodingService_service both_keys_env of
                Google \<Rightarrow> google_http ?w' = google_http google_down_world
              | Mapbox \<Rightarrow> mapbox_http ?w' = mapbox_http google_down_world
              | Nominatim \<Rightarrow> nominatim_http ?w' = nominatim_http google_down_world"
    by (simp add: svc2)
  from T2 same have b: "geocode both_keys_env id ?w' 0.5 0.5 0 None ''Miami, FL''
     = geocode both_keys_env id google_down_world 0.5 0.5 0 None ''Miami, FL''" by blast
  from a b show ?thesis by blast
qed

subsection \<open>Fallback to the mock variant\<close>

text \<open>
  C2. Each aggregation fetch (geocode, social-media reports, official updates) returns
  a result to its caller and never raises. On a cache miss, when the live source that
  the fetch consults fails, the result is the mock variant: the geocoding answer is the
  mock result, with source \<open>mock\<close>; the social-media answer is what the mock fetch
  returns, with source \<open>mock\<close>; the official-updates answer is what the mock fetch
  returns, made of canned updates, and that whatever the sources answer, so in
  particular when every source fails.
\<close>

theorem fetch_falls_back_to_mock:
  "(\<exists>r. fst (geocode env b64 w r1 r2 now supabase locationName) = Inr r)
   \<and> (\<forall>error. fst (getCachedData supabase now (geocode_cacheKey b64 locationName)) = Inr None
          \<and> fst (geocode_switch (GeocodingService_service env) w) = Inl error \<longrightarrow>
        fst (geocode env b64 w r1 r2 now supabase locationName)
          = fst (geocodeMock r1 r2 locationName)
        \<and> (\<exists>r. fst (geocode env b64 w r1 r2 now supabase locationName) = Inr r
               \<and> source r = ''mock''))
   \<and> (\<exists>r. fst (fetchReports senv locs sw now ssupabase did kws) = Inr r)
   \<and> (\<forall>error. fst (getCachedData ssupabase now (fetchReports_cacheKey did kws)) = Inr None
          \<and> fst (fetchReports_switch (SocialMediaService_service senv) sw now kws) = Inl error \<longrightarrow>
        fst (fetchReports senv locs sw now ssupabase did kws)
          = fst (fetchMockReports now kws (Some did))
        \<and> (\<exists>r. fst (fetchReports senv locs sw now ssupabase did kws) = Inr r
               \<and> reports_source r = ''mock''))
   \<and> (\<exists>r. fst (fetchUpdates uw now usupabase did kws) = Inr r)
   \<and> (fst (getCachedData usupabase now (fetchUpdates_cacheKey did kws)) = Inr None \<longrightarrow>
        fst (fetchUpdates uw now usupabase did kws) = fst (fetchMockUpdates now kws (Some did))
        \<and> (\<exists>r. fst (fetchUpdates uw now usupabase did kws) = Inr r
               \<and> set (updates r) \<subseteq> set (mockUpdates now)))"
proof (intro conjI allI impI)
  show "\<exists>r. fst (geocode env b64 w r1 r2 now supabase locationName) = Inr r"
    by (rule geocode_returns)
  show "\<exists>r. fst (fetchReports senv locs sw now ssupabase did kws) = Inr r"
    by (rule fetchReports_returns)
  show "\<exists>r. fst (fetchUpdates uw now usupabase did kws) = Inr r"
    by (rule fetchUpdates_returns)
next
  fix error
  assume h: "fst (getCachedData supabase now (geocode_cacheKey b64 locationName)) = Inr None
             \<and> fst (geocode_switch (GeocodingService_service env) w) = Inl error"
  then have miss: "fst (getCachedData supabase now (geocode_cacheKey b64 locationName)) = Inr None"
    and fail: "fst (geocode_switch (GeocodingService_service env) w) = Inl error" by blast+
  show eq: "fst (geocode env b64 w r1 r2 now supabase locationName)
              = fst (geocodeMock r1 r2 locationName)"
    by (simp add: geocode_on_miss[OF miss] fail)
  show "\<exists>r. fst (geocode env b64 w r1 r2 now supabase locationName) = Inr r \<and> source r = ''mock''"
    unfolding eq by (rule geocodeMock_source)
next
  fix error
  assume h: "fst (getCachedData ssupabase now (fetchReports_cacheKey did kws)) = Inr None
             \<and> fst (fetchReports_switch (SocialMediaService_service senv) sw now kws) = Inl error"
  then have miss: "fst (getCachedData ssupabase now (fetchReports_cacheKey did kws)) = Inr None"
    and fail: "fst (fetchReports_switch (SocialMediaService_service senv) sw now kws) = Inl error"
    by blast+
  show eq: "fst (fetchReports senv locs sw now ssupabase did kws)
              = fst (fetchMockReports now kws (Some did))"
    by (simp add: fetchReports_on_miss[OF miss] fail)
  show "\<exists>r. fst (fetchReports senv locs sw now ssupabase did kws) = Inr r
            \<and> reports_source r = ''mock''"
    unfolding eq by (rule fetchMockReports_source)
next
  assume miss: "fst (getCachedData usupabase now (fetchUpdates_cacheKey did kws)) = Inr None"
  show eq: "fst (fetchUpdates uw now usupabase did kws) = fst (fetchMockUpdates now kws (Some did))"
    by (rule fetchUpdates_on_miss[OF miss])
  show "\<exists>r. fst (fetchUpdates uw now usupabase did kws) = Inr r
            \<and> set (updates r) \<subseteq> set (mockUpdates now)"
    unfolding eq using fetchMockUpdates_canned[of now kws "Some did"] by blast
qed

lemma twitter_down:
  "fst (fetchFromTwitter \<lparr>twitter_http = (\<lambda>k. Inl (JsError ''Request failed with status code 429'')),
                          bluesky_http = (\<lambda>k. Inr \<lparr>b_posts = Some []\<rparr>)\<rparr>)
     = Inl (JsError ''Request failed with status code 429'')"
  by (simp add: fetchFromTwitter_def retry_default_all_fail client_catch_def js_message_def)

theorem fetch_falls_back_to_mock_witness:
  "(\<exists>r. fst (geocode both_keys_env id google_down_world 0.5 0.5 0 None ''Nowhere, ZZ'') = Inr r
        \<and> source r = ''mock'')
   \<and> fst (fetchReports
            \<lparr>TWITTER_BEARER_TOKEN = Some ''token'', BLUESKY_IDENTIFIER = None,
             BLUESKY_PASSWORD = None\<rparr>
            (\<lambda>s. [])
            \<lparr>twitter_http = (\<lambda>k. Inl (JsError ''Request failed with status code 429'')),
             bluesky_http = (\<lambda>k. Inr \<lparr>b_posts = Some []\<rparr>)\<rparr>
            0 None ''d1'' [''earthquake''])
       = Inr \<lparr>reports = [], reports_source = ''mock'', totalFound = 0,
              disasterId = Some ''d1'', fetchedAt = Some 0\<rparr>
   \<and> (\<exists>r. fst (fetchUpdates
                 \<lparr>fema_http = (\<lambda>k. Inl (JsError ''timeout of 15000ms exceeded'')),
                  redcross_http = (\<lambda>k. Inl (JsError ''Request failed with status code 503'')),
                  nws_http = (\<lambda>k. Inl (JsError ''getaddrinfo ENOTFOUND''))\<rparr>
                 0 None ''d1'' [''shelters'']) = Inr r
        \<and> map ou_id (updates r) = [''redcross_mock_1''])"
proof -
  let ?senv = "\<lparr>TWITTER_BEARER_TOKEN = Some ''token'', BLUESKY_IDENTIFIER = None,
                BLUESKY_PASSWORD = None\<rparr>"
  let ?sw = "\<lparr>twitter_http = (\<lambda>k. Inl (JsError ''Request failed with status code 429'')),
              bluesky_http = (\<lambda>k. Inr \<lparr>b_posts = Some []\<rparr>)\<rparr>"
  let ?uw = "\<lparr>fema_http = (\<lambda>k. Inl (JsError ''timeout of 15000ms exceeded'')),
              redcross_http = (\<lambda>k. Inl (JsError ''Request failed with status code 503'')),
              nws_http = (\<lambda>k. Inl (JsError ''getaddrinfo ENOTFOUND''))\<rparr>"
  note T = fetch_falls_back_to_mock[of both_keys_env id google_down_world "0.5" "0.5" 0 None
             "''Nowhere, ZZ''" ?senv "\<lambda>s. []" ?sw None "''d1''" "[''earthquake'']" ?uw None]
  note U = fetch_falls_back_to_mock[of both_keys_env id google_down_world "0.5" "0.5" 0 None
             "''Nowhere, ZZ''" ?senv "\<lambda>s. []" ?sw None "''d1''" "[''shelters'']" ?uw None]
  have gmiss: "fst (getCachedData (None :: geocode_result supabase_client option) 0
                     (geocode_cacheKey id ''Nowhere, ZZ'')) = Inr None"
    by (simp add: getCachedData_def)
  have gfail: "fst (geocode_switch (GeocodingService_service both_keys_env) google_down_world)
                 = Inl (JsError ''timeout of 10000ms exceeded'')"
    by (simp add: GeocodingService_service_def both_keys_env_def truthy_def geocode_switch_def
          google_down_google)
  from T gmiss gfail
  have a: "\<exists>r. fst (geocode both_keys_env id google_down_world 0.5 0.5 0 None ''Nowhere, ZZ'') = Inr r
        \<and> source r = ''mock''" by blast
  have smiss: "fst (getCachedData (None :: fetch_result supabase_client option) 0
                     (fetchReports_cacheKey ''d1'' [''earthquake''])) = Inr None"
    by (simp add: getCachedData_def)
  have sfail: "fst (fetchReports_switch (SocialMediaService_service ?senv) ?sw 0 [''earthquake''])
                 = Inl (JsError ''Request failed with status code 429'')"
    by (simp add: SocialMediaService_service_def truthy_def fetchReports_switch_def twitter_down)
  from T smiss sfail
  have "fst (fetchReports ?senv (\<lambda>s. []) ?sw 0 None ''d1'' [''earthquake''])
          = fst (fetchMockReports 0 [''earthquake''] (Some ''d1''))" by blast
  moreover have "filter (\<lambda>r. \<exists>k \<in> set [''earthquake'']. contains_ci (content r) k) (mockReports 0) = []"
    using no_earthquake by (simp add: filter_empty_conv)
  ultimately have b: "fst (fetchReports ?senv (\<lambda>s. []) ?sw 0 None ''d1'' [''earthquake''])
       = Inr \<lparr>reports = [], reports_source = ''mock'', totalFound = 0,
              disasterId = Some ''d1'', fetchedAt = Some 0\<rparr>"
    by (simp add: fetchMockReports_reports)
  have umiss: "fst (getCachedData (None :: updates_result supabase_client option) 0
                     (fetchUpdates_cacheKey ''d1'' [''shelters''])) = Inr None"
    by (simp add: getCachedData_def)
  from U umiss
  have eq: "fst (fetchUpdates ?uw 0 None ''d1'' [''shelters''])
          = fst (fetchMockUpdates 0 [''shelters''] (Some ''d1''))" by blast
  have "case fst (fetchMockUpdates 0 [''shelters''] (Some ''d1'')) of
          Inl error \<Rightarrow> False
        | Inr r \<Rightarrow> map ou_id (updates r) = [''redcross_mock_1'']"
    by code_simp
  then have "\<exists>r. fst (fetchMockUpdates 0 [''shelters''] (Some ''d1'')) = Inr r
            \<and> map ou_id (updates r) = [''redcross_mock_1'']"
    by (cases "fst (fetchMockUpdates 0 [''shelters''] (Some ''d1''))") simp_all
  with eq have c: "\<exists>r. fst (fetchUpdates ?uw 0 None ''d1'' [''shelters'']) = Inr r
        \<and> map ou_id (updates r) = [''redcross_mock_1'']" by simp
  from a b c show ?thesis by blast
qed

end
